theory Spec2Isabelle
  imports Main "HOL-Library.Multiset" "HOL-Library.Stream" "HOL-Library.AList"
begin

section \<open>Python values\<close>

text \<open>
  A Python \<open>str\<close> is a sequence of Unicode code points and \<open>len\<close> counts code points,
  so a string is a list of code points (natural numbers). \<open>str_of\<close> turns an Isabelle
  literal into such a string; a character outside ASCII is written as its code point
  (the German word for sleeve, with its capital A umlaut, is \<open>196 # str_of ''rmel''\<close>).
\<close>

type_synonym pystr = "nat list"

definition str_of :: "string \<Rightarrow> pystr" where
  "str_of s = map of_char s"

datatype error = ValueError | IndexError | KeyError | TypeError

text \<open>
  The random source. \<open>random.shuffle\<close> and \<open>random.sample\<close> draw from \<open>rand\<close>
  (one value for each call of the library's \<open>randbelow n\<close>, reduced modulo \<open>n\<close>);
  \<open>uuid.uuid4()\<close> draws from \<open>uuid\<close>. Both are arbitrary infinite sequences, so a
  theorem for every source is a theorem for every outcome of the randomness.
\<close>

record source =
  rand :: "nat stream"
  uuid :: "nat stream"

subsection \<open>\<open>str\<close> methods\<close>

text \<open>
  \<open>str.isspace\<close> on one code point: the complete list of CPython's
  \<open>_PyUnicode_IsWhitespace\<close>.
\<close>

definition is_space :: "nat \<Rightarrow> bool" where
  "is_space c \<longleftrightarrow>
     (9 \<le> c \<and> c \<le> 13) \<or> (28 \<le> c \<and> c \<le> 32) \<or> c = 133 \<or> c = 160 \<or> c = 5760 \<or>
     (8192 \<le> c \<and> c \<le> 8202) \<or> c = 8232 \<or> c = 8233 \<or> c = 8239 \<or> c = 8287 \<or> c = 12288"

text \<open>\<open>s.strip()\<close>: leading and trailing whitespace removed.\<close>

definition py_strip :: "pystr \<Rightarrow> pystr" where
  "py_strip s = rev (dropWhile is_space (rev (dropWhile is_space s)))"

text \<open>\<open>s.split()\<close>: the maximal runs of non-whitespace, \<open>w\<close> being the run read so far.\<close>

fun split_ws :: "pystr \<Rightarrow> pystr \<Rightarrow> pystr list" where
  "split_ws w [] = (if w = [] then [] else [w])"
| "split_ws w (c # cs) =
     (if is_space c then (if w = [] then split_ws [] cs else w # split_ws [] cs)
      else split_ws (w @ [c]) cs)"

definition py_split :: "pystr \<Rightarrow> pystr list" where
  "py_split s = split_ws [] s"

text \<open>\<open>pat in s\<close> on strings: \<open>pat\<close> occurs as a contiguous substring.\<close>

fun contains :: "pystr \<Rightarrow> pystr \<Rightarrow> bool" where
  "contains pat [] = (pat = [])"
| "contains pat (c # cs) = (take (length pat) (c # cs) = pat \<or> contains pat cs)"

text \<open>\<open>xs.index(x)\<close> for an \<open>x\<close> that occurs, and the index of the first element with a property.\<close>

fun find_index_from :: "nat \<Rightarrow> ('a \<Rightarrow> bool) \<Rightarrow> 'a list \<Rightarrow> nat option" where
  "find_index_from i P [] = None"
| "find_index_from i P (x # xs) = (if P x then Some i else find_index_from (Suc i) P xs)"

text \<open>
  Simple case mapping of one code point, for Basic Latin and the Latin-1 Supplement; the
  code points beyond are left as they are (CPython maps them with the Unicode tables).
  No theorem below depends on what these functions return, except the worked example
  of the fill-in-blank exercise, which is ASCII.
\<close>

definition is_upper_cp :: "nat \<Rightarrow> bool" where
  "is_upper_cp c \<longleftrightarrow> (65 \<le> c \<and> c \<le> 90) \<or> (192 \<le> c \<and> c \<le> 214) \<or> (216 \<le> c \<and> c \<le> 222)"

definition is_lower_cp :: "nat \<Rightarrow> bool" where
  "is_lower_cp c \<longleftrightarrow> (97 \<le> c \<and> c \<le> 122) \<or> (224 \<le> c \<and> c \<le> 246) \<or> (248 \<le> c \<and> c \<le> 254)"

definition lower_cp :: "nat \<Rightarrow> nat" where
  "lower_cp c = (if is_upper_cp c then c + 32 else c)"

definition upper_cp :: "nat \<Rightarrow> nat" where
  "upper_cp c = (if is_lower_cp c then c - 32 else c)"

definition py_lower :: "pystr \<Rightarrow> pystr" where
  "py_lower s = map lower_cp s"

text \<open>\<open>c.upper()\<close> of a one-character string; the sharp s (223) becomes \<open>SS\<close>, the
  micro sign (181) and the y with diaeresis (255) leave Latin-1.\<close>

definition py_upper_char :: "nat \<Rightarrow> pystr" where
  "py_upper_char c =
     (if c = 223 then [83, 83] else if c = 181 then [924] else if c = 255 then [376]
      else [upper_cp c])"

text \<open>\<open>s.title()\<close>: the first cased character of every run upper-cased, the others
  lower-cased; \<open>prev\<close> tells whether the previous character was cased.\<close>

fun title_from :: "bool \<Rightarrow> pystr \<Rightarrow> pystr" where
  "title_from prev [] = []"
| "title_from prev (c # cs) =
     (if is_upper_cp c \<or> is_lower_cp c
      then (if prev then lower_cp c else upper_cp c) # title_from True cs
      else c # title_from False cs)"

definition py_title :: "pystr \<Rightarrow> pystr" where
  "py_title s = title_from False s"

text \<open>\<open>s.replace(a, b)\<close> for one-character \<open>a\<close> and \<open>b\<close>.\<close>

definition replace_char :: "nat \<Rightarrow> nat \<Rightarrow> pystr \<Rightarrow> pystr" where
  "replace_char a b s = map (\<lambda>c. if c = a then b else c) s"

text \<open>\<open>str(n)\<close> for a length: the decimal digits.\<close>

fun str_nat :: "nat \<Rightarrow> pystr" where
  "str_nat n = (if n < 10 then [48 + n] else str_nat (n div 10) @ [48 + n mod 10])"

declare str_nat.simps [simp del]

subsection \<open>\<open>re\<close>: a literal pattern, ignoring case\<close>

text \<open>
  \<open>re.compile(re.escape(pat), re.IGNORECASE).sub(repl, s)\<close>: the pattern is the literal
  \<open>pat\<close>; two characters match when their lower-case mappings agree. The string is
  scanned from the left, each match is replaced and the scan goes on behind it. \<open>skip\<close>
  counts the characters of the current match still to be passed over. An empty pattern
  matches before every character and at the end.
\<close>

definition ci_prefix :: "pystr \<Rightarrow> pystr \<Rightarrow> bool" where
  "ci_prefix pat s \<longleftrightarrow>
     length pat \<le> length s \<and> map lower_cp (take (length pat) s) = map lower_cp pat"

fun sub_scan :: "pystr \<Rightarrow> pystr \<Rightarrow> nat \<Rightarrow> pystr \<Rightarrow> pystr" where
  "sub_scan pat repl skip [] = []"
| "sub_scan pat repl skip (c # cs) =
     (if 0 < skip then sub_scan pat repl (skip - 1) cs
      else if ci_prefix pat (c # cs) then repl @ sub_scan pat repl (length pat - 1) cs
      else c # sub_scan pat repl 0 cs)"

definition re_sub_ignorecase :: "pystr \<Rightarrow> pystr \<Rightarrow> pystr \<Rightarrow> pystr" where
  "re_sub_ignorecase pat repl s =
     (if pat = [] then repl @ concat (map (\<lambda>c. c # repl) s) else sub_scan pat repl 0 s)"

subsection \<open>\<open>random\<close> and \<open>uuid\<close>\<close>

text \<open>
  \<open>random.shuffle(x)\<close>:
  \<^verbatim>\<open>for i in reversed(range(1, len(x))): j = randbelow(i + 1); x[i], x[j] = x[j], x[i]\<close>
  \<open>shuffle_from i\<close> runs the loop from index \<open>i\<close> down to 1.
\<close>

fun shuffle_from :: "nat \<Rightarrow> 'a list \<Rightarrow> nat stream \<Rightarrow> 'a list \<times> nat stream" where
  "shuffle_from 0 xs r = (xs, r)"
| "shuffle_from (Suc i) xs r =
     (let j = shd r mod (Suc i + 1)
      in shuffle_from i (xs[Suc i := xs ! j, j := xs ! Suc i]) (stl r))"

definition shuffle :: "'a list \<Rightarrow> nat stream \<Rightarrow> 'a list \<times> nat stream" where
  "shuffle xs r = shuffle_from (length xs - 1) xs r"

text \<open>
  \<open>random.sample(population, k)\<close> raises \<open>ValueError\<close> unless \<open>0 \<le> k \<le> n\<close>, and then
  selects \<open>k\<close> distinct positions:
  \<^verbatim>\<open>for i in range(k): j = randbelow(n - i); result[i] = pool[j]; pool[j] = pool[n - i - 1]\<close>
  The pool of the model is the part of the library's pool still in use, its first
  \<open>n - i\<close> entries. For a large population the library tracks the chosen positions in
  a set instead; both ways return the elements at \<open>k\<close> distinct positions.
\<close>

fun sample_loop :: "nat \<Rightarrow> 'a list \<Rightarrow> nat stream \<Rightarrow> 'a list \<times> nat stream" where
  "sample_loop 0 pool r = ([], r)"
| "sample_loop (Suc k) pool r =
     (let n = length pool;
          j = shd r mod n;
          x = pool ! j;
          (rest, r') = sample_loop k (take (n - 1) (pool[j := pool ! (n - 1)])) (stl r)
      in (x # rest, r'))"

definition sample :: "'a list \<Rightarrow> int \<Rightarrow> nat stream \<Rightarrow> error + ('a list \<times> nat stream)" where
  "sample population k r =
     (if \<not> (0 \<le> k \<and> k \<le> int (length population)) then Inl ValueError
      else Inr (sample_loop (nat k) population r))"

text \<open>\<open>uuid.uuid4().hex[:8]\<close>: the first 32 random bits as eight lower-case hex digits.\<close>

definition hex_digit :: "nat \<Rightarrow> nat" where
  "hex_digit d = (if d < 10 then 48 + d else 87 + d)"

definition hex8 :: "nat \<Rightarrow> pystr" where
  "hex8 n = map (\<lambda>i. hex_digit ((n div 16 ^ (7 - i)) mod 16)) [0..<8]"

definition uuid_hex8 :: "source \<Rightarrow> pystr \<times> source" where
  "uuid_hex8 s = (hex8 (shd (uuid s)), s\<lparr>uuid := stl (uuid s)\<rparr>)"

text \<open>A \<open>for\<close> loop that appends one result for each item, threading the state; the
  first error ends it, as the exception would.\<close>

fun for_each :: "('a \<Rightarrow> 's \<Rightarrow> error + ('b \<times> 's)) \<Rightarrow> 'a list \<Rightarrow> 's \<Rightarrow> error + ('b list \<times> 's)" where
  "for_each f [] s = Inr ([], s)"
| "for_each f (x # xs) s =
     (case f x s of
        Inl e \<Rightarrow> Inl e
      | Inr (y, s') \<Rightarrow>
          (case for_each f xs s' of Inl e \<Rightarrow> Inl e | Inr (ys, s'') \<Rightarrow> Inr (y # ys, s'')))"


section \<open>Data model\<close>

datatype Difficulty = EASY | MEDIUM | HARD

datatype ExerciseType = FILL_IN_BLANK | MATCHING | SPELLING | HANGMAN

fun difficulty_value :: "Difficulty \<Rightarrow> pystr" where
  "difficulty_value EASY = str_of ''easy''"
| "difficulty_value MEDIUM = str_of ''medium''"
| "difficulty_value HARD = str_of ''hard''"

fun exercise_type_value :: "ExerciseType \<Rightarrow> pystr" where
  "exercise_type_value FILL_IN_BLANK = str_of ''fill_in_blank''"
| "exercise_type_value MATCHING = str_of ''matching''"
| "exercise_type_value SPELLING = str_of ''spelling''"
| "exercise_type_value HANGMAN = str_of ''hangman''"

text \<open>
  A vocabulary item is a dictionary. \<open>item["id"]\<close> is read without a default, so the
  key is required; the others are read with \<open>get\<close>, so each may be absent:
  \<open>sourceForm\<close> and \<open>targetForm\<close> hold the \<open>text\<close> of the form (\<open>None\<close> when the form or
  its text is absent), \<open>exampleSentences\<close> holds the \<open>source\<close> of every sentence
  (\<open>None\<close> for a sentence without one).
\<close>

record vocab_item =
  item_id :: pystr
  sourceForm :: "pystr option"
  targetForm :: "pystr option"
  wordType :: "pystr option"
  exampleSentences :: "pystr option list"

record MatchingPair =
  pair_id :: pystr
  left :: pystr
  right :: pystr
  vocabulary_id :: pystr

text \<open>
  The four exercise classes extend \<open>Exercise\<close>; the fields they add are the payload.
  \<open>scrambled_letters\<close> is a list of one-character strings, here the list of their
  characters. Every constructor of the classes sets \<open>type\<close> to the class's own kind
  (\<open>__post_init__\<close>); its replacement of an empty \<open>id\<close> is never taken, since the
  generator passes a prefix followed by eight hex digits.
\<close>

datatype payload =
    FillInBlank (sentence: pystr) (blank_position: nat) (correct_answer: pystr)
      (fib_hint: "pystr option") (word_type: "pystr option")
  | Matching (pairs: "MatchingPair list") (shuffled_right: "pystr list")
  | Spelling (german_word: pystr) (english_word: pystr) (scrambled_letters: pystr)
      (spelling_hint: "pystr option")
  | Hangman (word: pystr) (hangman_hint: pystr) (category: pystr) (max_attempts: nat)
      (revealed_letters: "nat list")

record Exercise =
  ex_id :: pystr
  ex_type :: ExerciseType
  ex_difficulty :: Difficulty
  vocabulary_ids :: "pystr list"
  instructions :: pystr
  payload :: payload

record ExerciseSet =
  set_id :: pystr
  set_name :: pystr
  exercise_type :: ExerciseType
  difficulty :: Difficulty
  exercises :: "Exercise list"
  created_at :: pystr

section \<open>The exercise generator\<close>

text \<open>
  The generator holds the vocabulary list it was constructed with, here the argument
  \<open>vocab\<close> of every operation. The two indices its constructor builds (by word type and
  by word length) are read by no operation and are left out.
\<close>

record config =
  max_word_length :: nat
  show_hints :: bool
  matching_pairs :: nat
  hangman_attempts :: nat
  reveal_first_letter :: bool

fun DIFFICULTY_CONFIG :: "Difficulty \<Rightarrow> config" where
  "DIFFICULTY_CONFIG EASY =
     \<lparr>max_word_length = 6, show_hints = True, matching_pairs = 4, hangman_attempts = 8,
      reveal_first_letter = True\<rparr>"
| "DIFFICULTY_CONFIG MEDIUM =
     \<lparr>max_word_length = 10, show_hints = True, matching_pairs = 6, hangman_attempts = 6,
      reveal_first_letter = False\<rparr>"
| "DIFFICULTY_CONFIG HARD =
     \<lparr>max_word_length = 100, show_hints = False, matching_pairs = 8, hangman_attempts = 5,
      reveal_first_letter = False\<rparr>"

definition get_english :: "vocab_item \<Rightarrow> pystr" where
  "get_english item = (case sourceForm item of None \<Rightarrow> [] | Some t \<Rightarrow> t)"

definition get_german :: "vocab_item \<Rightarrow> pystr" where
  "get_german item =
     (let text = (case targetForm item of None \<Rightarrow> [] | Some t \<Rightarrow> t)
      in if 59 \<in> set text then py_strip (takeWhile (\<lambda>c. c \<noteq> 59) text) else text)"

definition get_word_type :: "vocab_item \<Rightarrow> pystr" where
  "get_word_type item = (case wordType item of None \<Rightarrow> str_of ''unknown'' | Some t \<Rightarrow> t)"

definition get_example_sentence :: "vocab_item \<Rightarrow> pystr option" where
  "get_example_sentence item = (case exampleSentences item of [] \<Rightarrow> None | s # _ \<Rightarrow> s)"

text \<open>The truth value of an optional string: \<open>None\<close> and the empty string are false.\<close>

definition truthy :: "pystr option \<Rightarrow> bool" where
  "truthy x = (case x of None \<Rightarrow> False | Some s \<Rightarrow> s \<noteq> [])"

definition filter_by_difficulty :: "vocab_item list \<Rightarrow> Difficulty \<Rightarrow> vocab_item list" where
  "filter_by_difficulty vocabulary d =
     (let max_length = max_word_length (DIFFICULTY_CONFIG d)
      in filter (\<lambda>item. length (get_english item) \<le> max_length \<and> get_english item \<noteq> [])
           vocabulary)"

definition select_random ::
  "'a list \<Rightarrow> int \<Rightarrow> source \<Rightarrow> error + ('a list \<times> source)" where
  "select_random items cnt s =
     (if int (length items) \<le> cnt then Inr (items, s)
      else (case sample items cnt (rand s) of
              Inl e \<Rightarrow> Inl e
            | Inr (xs, r) \<Rightarrow> Inr (xs, s\<lparr>rand := r\<rparr>)))"

text \<open>\<open>random.shuffle\<close> on the generator's source.\<close>

definition shuffle_src :: "'a list \<Rightarrow> source \<Rightarrow> 'a list \<times> source" where
  "shuffle_src xs s = (let (ys, r) = shuffle xs (rand s) in (ys, s\<lparr>rand := r\<rparr>))"

subsection \<open>Fill-in-the-blank\<close>

definition blank :: pystr where
  "blank = str_of ''___''"

definition template_sentence :: "pystr \<Rightarrow> pystr" where
  "template_sentence wt =
     (if wt = str_of ''noun'' then str_of ''The ___ is important.''
      else if wt = str_of ''verb'' then str_of ''I ___ every day.''
      else if wt = str_of ''adjective'' then str_of ''It is very ___.''
      else if wt = str_of ''adverb'' then str_of ''She did it ___.''
      else str_of ''The word is ___.'')"

text \<open>The sentence and the blank position of one item: the example with the word
  replaced, or the template of the word type.\<close>

definition blanked_sentence :: "vocab_item \<Rightarrow> pystr \<times> nat" where
  "blanked_sentence item =
     (case get_example_sentence item of
        Some example \<Rightarrow>
          if example \<noteq> [] then
            (let sentence = re_sub_ignorecase (get_english item) blank example;
                 words = py_split sentence
             in (sentence,
                 case find_index_from 0 (contains blank) words of None \<Rightarrow> 0 | Some i \<Rightarrow> i))
          else
            (let sentence = template_sentence (get_word_type item)
             in (sentence,
                 case find_index_from 0 (\<lambda>w. w = blank) (py_split sentence) of
                   None \<Rightarrow> 0 | Some i \<Rightarrow> i))
      | None \<Rightarrow>
          (let sentence = template_sentence (get_word_type item)
           in (sentence,
               case find_index_from 0 (\<lambda>w. w = blank) (py_split sentence) of
                 None \<Rightarrow> 0 | Some i \<Rightarrow> i)))"

definition fill_in_blank_exercise ::
  "Difficulty \<Rightarrow> vocab_item \<Rightarrow> source \<Rightarrow> error + (Exercise \<times> source)" where
  "fill_in_blank_exercise d item s =
     (let config = DIFFICULTY_CONFIG d;
          english = get_english item;
          german = get_german item;
          (sentence, blank_pos) = blanked_sentence item;
          (h, s') = uuid_hex8 s
      in Inr (\<lparr>ex_id = str_of ''fib_'' @ h, ex_type = FILL_IN_BLANK, ex_difficulty = d,
               vocabulary_ids = [item_id item],
               instructions = str_of ''Fill in the blank with the correct English word.'',
               payload = FillInBlank sentence blank_pos english
                           (if show_hints config then Some german else None)
                           (Some (get_word_type item))\<rparr>, s'))"

definition generate_fill_in_blank ::
  "vocab_item list \<Rightarrow> Difficulty \<Rightarrow> int \<Rightarrow> source \<Rightarrow> error + (Exercise list \<times> source)" where
  "generate_fill_in_blank vocab d cnt s =
     (let vocabulary = filter_by_difficulty vocab d;
          with_examples = filter (\<lambda>v. truthy (get_example_sentence v)) vocabulary;
          without_examples = filter (\<lambda>v. \<not> truthy (get_example_sentence v)) vocabulary
      in case select_random with_examples cnt s of
           Inl e \<Rightarrow> Inl e
         | Inr (selected, s1) \<Rightarrow>
             if int (length selected) < cnt then
               (case select_random without_examples (cnt - int (length selected)) s1 of
                  Inl e \<Rightarrow> Inl e
                | Inr (extra, s2) \<Rightarrow> for_each (fill_in_blank_exercise d) (selected @ extra) s2)
             else for_each (fill_in_blank_exercise d) selected s1)"

subsection \<open>Matching\<close>

fun make_pairs :: "vocab_item list \<Rightarrow> source \<Rightarrow> MatchingPair list \<times> source" where
  "make_pairs [] s = ([], s)"
| "make_pairs (item # items) s =
     (let (h, s1) = uuid_hex8 s;
          pair = \<lparr>pair_id = str_of ''pair_'' @ h, left = get_english item,
                  right = get_german item, vocabulary_id = item_id item\<rparr>;
          (rest, s2) = make_pairs items s1
      in (pair # rest, s2))"

text \<open>The loop over \<open>range(count)\<close>; \<open>n\<close> is the number of rounds still to run.\<close>

fun matching_loop ::
  "nat \<Rightarrow> vocab_item list \<Rightarrow> Difficulty \<Rightarrow> vocab_item list \<Rightarrow> source \<Rightarrow> Exercise list \<times> source"
  where
  "matching_loop 0 vocabulary d remaining s = ([], s)"
| "matching_loop (Suc n) vocabulary d remaining s =
     (let pairs_per_exercise = matching_pairs (DIFFICULTY_CONFIG d);
          (remaining1, s1) =
            (if length remaining < pairs_per_exercise then shuffle_src vocabulary s
             else (remaining, s));
          selected = take pairs_per_exercise remaining1;
          remaining2 = drop pairs_per_exercise remaining1;
          (prs, s2) = make_pairs selected s1;
          (shuffled, s3) = shuffle_src (map right prs) s2;
          (h, s4) = uuid_hex8 s3;
          exercise =
            \<lparr>ex_id = str_of ''match_'' @ h, ex_type = MATCHING, ex_difficulty = d,
             vocabulary_ids = map vocabulary_id prs,
             instructions = str_of ''Match the English words with their German translations.'',
             payload = Matching prs shuffled\<rparr>;
          (rest, s5) = matching_loop n vocabulary d remaining2 s4
      in (exercise # rest, s5))"

definition generate_matching ::
  "vocab_item list \<Rightarrow> Difficulty \<Rightarrow> int \<Rightarrow> source \<Rightarrow> Exercise list \<times> source" where
  "generate_matching vocab d cnt s =
     (let vocabulary = filter_by_difficulty vocab d;
          (remaining, s0) = shuffle_src vocabulary s
      in matching_loop (nat cnt) vocabulary d remaining s0)"

subsection \<open>Spelling\<close>

text \<open>
  \<^verbatim>\<open>while "".join(letters) == english.lower() and attempts < 10:\<close>
  \<^verbatim>\<open>    random.shuffle(letters); attempts += 1\<close>
\<close>

function scramble_loop :: "pystr \<Rightarrow> pystr \<Rightarrow> nat \<Rightarrow> nat stream \<Rightarrow> pystr \<times> nat stream" where
  "scramble_loop lowered letters attempts r =
     (if letters = lowered \<and> attempts < 10
      then (let (letters', r') = shuffle letters r
            in scramble_loop lowered letters' (attempts + 1) r')
      else (letters, r))"
  by pat_completeness auto
termination
  by (relation "measure (\<lambda>(lowered, letters, attempts, r). 10 - attempts)") auto

declare scramble_loop.simps [simp del]

definition scramble :: "pystr \<Rightarrow> nat stream \<Rightarrow> pystr \<times> nat stream" where
  "scramble lowered r =
     (let (letters, r0) = shuffle lowered r in scramble_loop lowered letters 0 r0)"

text \<open>
  The list after \<open>n\<close> successive calls of \<open>random.shuffle\<close>, to name the outcomes of the
  first shuffle (\<open>n = 1\<close>) and of the ten bounded retries (\<open>n = 2, \<dots>, 11\<close>).
\<close>

fun shuffle_times :: "nat \<Rightarrow> 'a list \<Rightarrow> nat stream \<Rightarrow> 'a list \<times> nat stream" where
  "shuffle_times 0 xs r = (xs, r)"
| "shuffle_times (Suc n) xs r = (let (ys, r') = shuffle_times n xs r in shuffle ys r')"

definition spelling_hint_for :: "config \<Rightarrow> pystr \<Rightarrow> error + pystr option" where
  "spelling_hint_for config english =
     (if show_hints config then
        (if reveal_first_letter config then
           (case english of
              [] \<Rightarrow> Inl IndexError
            | c # _ \<Rightarrow>
                Inr (Some (str_of ''Starts with '' @ [39] @ py_upper_char c @ [39] @
                           str_of '', '' @ str_nat (length english) @ str_of '' letters'')))
         else Inr (Some (str_nat (length english) @ str_of '' letters'')))
      else Inr None)"

definition spelling_exercise ::
  "Difficulty \<Rightarrow> vocab_item \<Rightarrow> source \<Rightarrow> error + (Exercise \<times> source)" where
  "spelling_exercise d item s =
     (let config = DIFFICULTY_CONFIG d;
          english = get_english item;
          german = get_german item;
          (letters, r) = scramble (py_lower english) (rand s);
          s1 = s\<lparr>rand := r\<rparr>
      in case spelling_hint_for config english of
           Inl e \<Rightarrow> Inl e
         | Inr hint \<Rightarrow>
             (let (h, s2) = uuid_hex8 s1
              in Inr (\<lparr>ex_id = str_of ''spell_'' @ h, ex_type = SPELLING, ex_difficulty = d,
                       vocabulary_ids = [item_id item],
                       instructions = str_of ''Arrange the letters to spell the English word.'',
                       payload = Spelling german english letters hint\<rparr>, s2)))"

definition generate_spelling ::
  "vocab_item list \<Rightarrow> Difficulty \<Rightarrow> int \<Rightarrow> source \<Rightarrow> error + (Exercise list \<times> source)" where
  "generate_spelling vocab d cnt s =
     (case select_random (filter_by_difficulty vocab d) cnt s of
        Inl e \<Rightarrow> Inl e
      | Inr (selected, s1) \<Rightarrow> for_each (spelling_exercise d) selected s1)"

subsection \<open>Hangman\<close>

definition hangman_exercise ::
  "Difficulty \<Rightarrow> vocab_item \<Rightarrow> source \<Rightarrow> error + (Exercise \<times> source)" where
  "hangman_exercise d item s =
     (let config = DIFFICULTY_CONFIG d;
          english = get_english item;
          german = get_german item;
          revealed = (if reveal_first_letter config \<and> 0 < length english then [0] else []);
          (h, s') = uuid_hex8 s
      in Inr (\<lparr>ex_id = str_of ''hang_'' @ h, ex_type = HANGMAN, ex_difficulty = d,
               vocabulary_ids = [item_id item],
               instructions = str_of ''Guess the English word letter by letter.'',
               payload = Hangman english german (get_word_type item)
                           (hangman_attempts config) revealed\<rparr>, s'))"

definition generate_hangman ::
  "vocab_item list \<Rightarrow> Difficulty \<Rightarrow> int \<Rightarrow> source \<Rightarrow> error + (Exercise list \<times> source)" where
  "generate_hangman vocab d cnt s =
     (case select_random (filter_by_difficulty vocab d) cnt s of
        Inl e \<Rightarrow> Inl e
      | Inr (selected, s1) \<Rightarrow> for_each (hangman_exercise d) selected s1)"

subsection \<open>Exercise sets\<close>

text \<open>
  The dispatch table has an entry for each of the four kinds, so its \<open>ValueError\<close> for an
  unknown kind cannot be raised on a value of the enumeration. \<open>now\<close> is the reading of
  the clock, \<open>datetime.now(timezone.utc).isoformat()\<close>.
\<close>

definition default_name :: "ExerciseType \<Rightarrow> Difficulty \<Rightarrow> pystr" where
  "default_name kind d =
     py_title (replace_char 95 32 (exercise_type_value kind)) @ str_of '' - '' @
     py_title (difficulty_value d)"

definition generate_exercises ::
  "vocab_item list \<Rightarrow> ExerciseType \<Rightarrow> Difficulty \<Rightarrow> int \<Rightarrow> source \<Rightarrow>
   error + (Exercise list \<times> source)" where
  "generate_exercises vocab kind d cnt s =
     (case kind of
        FILL_IN_BLANK \<Rightarrow> generate_fill_in_blank vocab d cnt s
      | MATCHING \<Rightarrow> Inr (generate_matching vocab d cnt s)
      | SPELLING \<Rightarrow> generate_spelling vocab d cnt s
      | HANGMAN \<Rightarrow> generate_hangman vocab d cnt s)"

definition generate_exercise_set ::
  "vocab_item list \<Rightarrow> ExerciseType \<Rightarrow> Difficulty \<Rightarrow> int \<Rightarrow> pystr option \<Rightarrow> pystr \<Rightarrow> source \<Rightarrow>
   error + (ExerciseSet \<times> source)" where
  "generate_exercise_set vocab kind d cnt name now s =
     (case generate_exercises vocab kind d cnt s of
        Inl e \<Rightarrow> Inl e
      | Inr (exs, s1) \<Rightarrow>
          (let name' = (case name of
                          None \<Rightarrow> default_name kind d
                        | Some n \<Rightarrow> if n = [] then default_name kind d else n);
               (h, s2) = uuid_hex8 s1
           in Inr (\<lparr>set_id = str_of ''set_'' @ h, set_name = name', exercise_type = kind,
                    difficulty = d, exercises = exs, created_at = now\<rparr>, s2)))"

section \<open>The exporter\<close>

text \<open>
  What \<open>to_dict\<close> builds and \<open>json.dump\<close> writes. A Python dictionary keeps its keys
  in insertion order and holds each key once: it is an association list, \<open>d[k] = v\<close>
  is \<open>AList.update k v d\<close> (the value replaced in place, or the entry appended).
\<close>

datatype json =
    JNull
  | JStr pystr
  | JInt int
  | JArr "json list"
  | JObj "(pystr \<times> json) list"

type_synonym pydict = "(pystr \<times> json) list"

definition dict_update :: "pydict \<Rightarrow> pydict \<Rightarrow> pydict" where
  "dict_update base kvs = fold (\<lambda>(k, v). AList.update k v) kvs base"

text \<open>\<open>d.get(k)\<close>: \<open>None\<close> for an absent key.\<close>

definition dict_get :: "pydict \<Rightarrow> pystr \<Rightarrow> json" where
  "dict_get d k = (case map_of d k of None \<Rightarrow> JNull | Some v \<Rightarrow> v)"

definition opt_json :: "pystr option \<Rightarrow> json" where
  "opt_json x = (case x of None \<Rightarrow> JNull | Some t \<Rightarrow> JStr t)"

definition base_to_dict :: "Exercise \<Rightarrow> pydict" where
  "base_to_dict e =
     [(str_of ''id'', JStr (ex_id e)),
      (str_of ''type'', JStr (exercise_type_value (ex_type e))),
      (str_of ''difficulty'', JStr (difficulty_value (ex_difficulty e))),
      (str_of ''vocabularyIds'', JArr (map JStr (vocabulary_ids e))),
      (str_of ''instructions'', JStr (instructions e))]"

definition pair_to_dict :: "MatchingPair \<Rightarrow> json" where
  "pair_to_dict p =
     JObj [(str_of ''id'', JStr (pair_id p)), (str_of ''left'', JStr (left p)),
           (str_of ''right'', JStr (right p)), (str_of ''vocabularyId'', JStr (vocabulary_id p))]"

fun payload_to_dict :: "payload \<Rightarrow> pydict" where
  "payload_to_dict (FillInBlank sen pos answer hint wt) =
     [(str_of ''sentence'', JStr sen), (str_of ''blankPosition'', JInt (int pos)),
      (str_of ''correctAnswer'', JStr answer), (str_of ''hint'', opt_json hint),
      (str_of ''wordType'', opt_json wt)]"
| "payload_to_dict (Matching prs shuffled) =
     [(str_of ''pairs'', JArr (map pair_to_dict prs)),
      (str_of ''shuffledRight'', JArr (map JStr shuffled)),
      (str_of ''pairCount'', JInt (int (length prs)))]"
| "payload_to_dict (Spelling german english letters hint) =
     [(str_of ''germanWord'', JStr german), (str_of ''englishWord'', JStr english),
      (str_of ''scrambledLetters'', JArr (map (\<lambda>c. JStr [c]) letters)),
      (str_of ''hint'', opt_json hint),
      (str_of ''letterCount'', JInt (int (length english)))]"
| "payload_to_dict (Hangman w hint cat attempts revealed) =
     [(str_of ''word'', JStr w), (str_of ''wordLength'', JInt (int (length w))),
      (str_of ''hint'', JStr hint), (str_of ''category'', JStr cat),
      (str_of ''maxAttempts'', JInt (int attempts)),
      (str_of ''revealedLetters'', JArr (map (\<lambda>i. JInt (int i)) revealed))]"

definition to_dict :: "Exercise \<Rightarrow> pydict" where
  "to_dict e = dict_update (base_to_dict e) (payload_to_dict (payload e))"

definition set_to_dict :: "ExerciseSet \<Rightarrow> pydict" where
  "set_to_dict st =
     [(str_of ''id'', JStr (set_id st)),
      (str_of ''name'', JStr (set_name st)),
      (str_of ''exerciseType'', JStr (exercise_type_value (exercise_type st))),
      (str_of ''difficulty'', JStr (difficulty_value (difficulty st))),
      (str_of ''exerciseCount'', JInt (int (length (exercises st)))),
      (str_of ''exercises'', JArr (map (\<lambda>e. JObj (to_dict e)) (exercises st))),
      (str_of ''createdAt'', JStr (created_at st))]"

text \<open>
  A path is the list of its components. The file system holds the directories that
  exist and the content of every file; a file written by
  \<open>json.dump(data, f, indent=2, ensure_ascii=False)\<close> holds a text that is a function of
  \<open>data\<close> alone, and is represented by \<open>data\<close>. Its operations do not fail here.
\<close>

type_synonym path = "pystr list"

record filesystem =
  dirs :: "path set"
  files :: "path \<rightharpoonup> json"

record exporter =
  output_dir :: path

text \<open>\<open>dir_path.mkdir(parents=True, exist_ok=True)\<close>\<close>

definition mkdir_parents :: "path \<Rightarrow> filesystem \<Rightarrow> filesystem" where
  "mkdir_parents p fs = fs\<lparr>dirs := dirs fs \<union> set (map (\<lambda>n. take n p) [0..<Suc (length p)])\<rparr>"

definition ensure_directories :: "exporter \<Rightarrow> filesystem \<Rightarrow> filesystem" where
  "ensure_directories ex fs =
     fold (\<lambda>d. mkdir_parents (output_dir ex @ [difficulty_value d])) [EASY, MEDIUM, HARD] fs"

text \<open>The directories that \<open>ensure_directories\<close> creates: every difficulty directory and
  its ancestors.\<close>

definition exported_dirs :: "exporter \<Rightarrow> path set" where
  "exported_dirs ex =
     (\<Union>d\<in>{EASY, MEDIUM, HARD}.
        set (map (\<lambda>n. take n (output_dir ex @ [difficulty_value d]))
               [0..<Suc (length (output_dir ex @ [difficulty_value d]))]))"

definition export_set :: "exporter \<Rightarrow> filesystem \<Rightarrow> ExerciseSet \<Rightarrow> path \<times> filesystem" where
  "export_set ex fs exercise_set =
     (let fs1 = ensure_directories ex fs;
          difficulty_dir = output_dir ex @ [difficulty_value (difficulty exercise_set)];
          filename = exercise_type_value (exercise_type exercise_set) @ str_of ''.json'';
          output_path = difficulty_dir @ [filename];
          data = set_to_dict exercise_set
      in (output_path, fs1\<lparr>files := (files fs1)(output_path \<mapsto> JObj data)\<rparr>))"

text \<open>The dictionary comprehension \<open>{p["left"]: p["right"] for p in pairs}\<close>.\<close>

fun pairing :: "json list \<Rightarrow> pydict \<Rightarrow> error + pydict" where
  "pairing [] acc = Inr acc"
| "pairing (p # ps) acc =
     (case p of
        JObj kv \<Rightarrow>
          (case map_of kv (str_of ''left'') of
             Some (JStr l) \<Rightarrow>
               (case map_of kv (str_of ''right'') of
                  Some r \<Rightarrow> pairing ps (AList.update l r acc)
                | None \<Rightarrow> Inl KeyError)
           | Some _ \<Rightarrow> Inl TypeError
           | None \<Rightarrow> Inl KeyError)
      | _ \<Rightarrow> Inl TypeError)"

text \<open>The answer stored for one exercise; the branch is chosen by the kind of the
  \<^emph>\<open>set\<close>.\<close>

definition exercise_answer :: "ExerciseType \<Rightarrow> Exercise \<Rightarrow> error + json" where
  "exercise_answer kind exercise =
     (let exercise_dict = to_dict exercise
      in case kind of
           FILL_IN_BLANK \<Rightarrow>
             Inr (JObj [(str_of ''answer'', dict_get exercise_dict (str_of ''correctAnswer''))])
         | MATCHING \<Rightarrow>
             (case (case map_of exercise_dict (str_of ''pairs'') of
                      None \<Rightarrow> pairing [] []
                    | Some (JArr ps) \<Rightarrow> pairing ps []
                    | Some _ \<Rightarrow> Inl TypeError) of
                Inl e \<Rightarrow> Inl e
              | Inr m \<Rightarrow> Inr (JObj [(str_of ''pairs'', JObj m)]))
         | SPELLING \<Rightarrow>
             Inr (JObj [(str_of ''answer'', dict_get exercise_dict (str_of ''englishWord''))])
         | HANGMAN \<Rightarrow>
             Inr (JObj [(str_of ''answer'', dict_get exercise_dict (str_of ''word''))]))"

fun set_answers_loop :: "ExerciseType \<Rightarrow> Exercise list \<Rightarrow> pydict \<Rightarrow> error + pydict" where
  "set_answers_loop kind [] set_answers = Inr set_answers"
| "set_answers_loop kind (exercise # rest) set_answers =
     (case exercise_answer kind exercise of
        Inl e \<Rightarrow> Inl e
      | Inr a \<Rightarrow> set_answers_loop kind rest (AList.update (ex_id exercise) a set_answers))"

fun answers_loop :: "(pystr \<times> ExerciseSet) list \<Rightarrow> pydict \<Rightarrow> error + pydict" where
  "answers_loop [] answers = Inr answers"
| "answers_loop ((key, exercise_set) # rest) answers =
     (case set_answers_loop (exercise_type exercise_set) (exercises exercise_set) [] of
        Inl e \<Rightarrow> Inl e
      | Inr set_answers \<Rightarrow> answers_loop rest (AList.update key (JObj set_answers) answers))"

definition export_answers ::
  "exporter \<Rightarrow> filesystem \<Rightarrow> (pystr \<times> ExerciseSet) list \<Rightarrow> error + (path \<times> filesystem)" where
  "export_answers ex fs exercise_sets =
     (let fs1 = ensure_directories ex fs
      in case answers_loop exercise_sets [] of
           Inl e \<Rightarrow> Inl e
         | Inr answers \<Rightarrow>
             (let answers_path = output_dir ex @ [str_of ''answers.json'']
              in Inr (answers_path, fs1\<lparr>files := (files fs1)(answers_path \<mapsto> JObj answers)\<rparr>)))"

section \<open>Example inputs\<close>

text \<open>A vocabulary item with the given id, source word and target word, no word type and
  no example sentence.\<close>

definition plain_item :: "string \<Rightarrow> pystr \<Rightarrow> pystr \<Rightarrow> vocab_item" where
  "plain_item i src tgt =
     \<lparr>item_id = str_of i, sourceForm = Some src, targetForm = Some tgt, wordType = None,
      exampleSentences = []\<rparr>"

text \<open>A source word of 101 letters.\<close>

definition long_item :: vocab_item where
  "long_item = plain_item ''v1'' (replicate 101 97) (str_of ''lang'')"

text \<open>The two-letter word \<open>ab\<close>.\<close>

definition ab_item :: vocab_item where
  "ab_item = plain_item ''v1'' (str_of ''ab'') (str_of ''x'')"

text \<open>Four short words.\<close>

definition four_items :: "vocab_item list" where
  "four_items =
     [plain_item ''v1'' (str_of ''a'') (str_of ''w''), plain_item ''v2'' (str_of ''b'') (str_of ''x''),
      plain_item ''v3'' (str_of ''c'') (str_of ''y''), plain_item ''v4'' (str_of ''d'') (str_of ''z'')]"


text \<open>The random source whose every draw is \<open>n\<close>.\<close>

definition constant_source :: "nat \<Rightarrow> source" where
  "constant_source n = \<lparr>rand = sconst n, uuid = sconst 0\<rparr>"

text \<open>The spelling exercise built for \<open>ab_item\<close> at Easy when the uuid draw is 0 and the
  letters come out as \<open>letters\<close>.\<close>

definition ab_exercise :: "pystr \<Rightarrow> Exercise" where
  "ab_exercise letters =
     \<lparr>ex_id = str_of ''spell_00000000'', ex_type = SPELLING, ex_difficulty = EASY,
      vocabulary_ids = [str_of ''v1''],
      instructions = str_of ''Arrange the letters to spell the English word.'',
      payload = Spelling (str_of ''x'') (str_of ''ab'') letters
                  (Some (str_of ''Starts with '' @ [39] @ str_of ''A'' @ [39] @ str_of '', 2 letters''))\<rparr>"


text \<open>The vocabulary item of the worked example, and the exercise built from it when the
  uuid draw renders as \<open>h\<close>.\<close>

definition sleeve_item :: vocab_item where
  "sleeve_item =
     \<lparr>item_id = str_of ''v1'', sourceForm = Some (str_of ''sleeve''),
      targetForm = Some (196 # str_of ''rmel''), wordType = Some (str_of ''noun''),
      exampleSentences = [Some (str_of ''She has short sleeves.'')]\<rparr>"

definition sleeve_exercise :: "pystr \<Rightarrow> Exercise" where
  "sleeve_exercise h =
     \<lparr>ex_id = str_of ''fib_'' @ h, ex_type = FILL_IN_BLANK, ex_difficulty = EASY,
      vocabulary_ids = [str_of ''v1''],
      instructions = str_of ''Fill in the blank with the correct English word.'',
      payload = FillInBlank (str_of ''She has short ___s.'') 3 (str_of ''sleeve'')
                  (Some (196 # str_of ''rmel'')) (Some (str_of ''noun''))\<rparr>"

text \<open>A hangman set with one exercise, an exporter and an empty file system.\<close>

definition cat_exercise :: Exercise where
  "cat_exercise =
     \<lparr>ex_id = str_of ''hang_00000000'', ex_type = HANGMAN, ex_difficulty = EASY,
      vocabulary_ids = [str_of ''v1''],
      instructions = str_of ''Guess the English word letter by letter.'',
      payload = Hangman (str_of ''cat'') (str_of ''Katze'') (str_of ''noun'') 8 [0]\<rparr>"

definition hangman_set :: ExerciseSet where
  "hangman_set =
     \<lparr>set_id = str_of ''set_00000000'', set_name = str_of ''Hangman - Easy'',
      exercise_type = HANGMAN, difficulty = EASY, exercises = [cat_exercise],
      created_at = str_of ''2024-05-01T10:00:00+00:00''\<rparr>"

definition example_exporter :: exporter where
  "example_exporter = \<lparr>output_dir = [str_of ''out'']\<rparr>"

definition empty_filesystem :: filesystem where
  "empty_filesystem = \<lparr>dirs = {}, files = Map.empty\<rparr>"

section \<open>Properties of the library models\<close>

lemma str_of_eq_iff [simp]: "str_of a = str_of b \<longleftrightarrow> a = b"
  by (simp add: str_of_def inj_map_eq_map [OF inj_of_char])

lemma shuffle_from_length [simp]: "length (fst (shuffle_from i xs r)) = length xs"
  by (induction i arbitrary: xs r) (simp_all add: Let_def)

lemma shuffle_from_mset: "i < length xs \<Longrightarrow> mset (fst (shuffle_from i xs r)) = mset xs"
proof (induction i arbitrary: xs r)
  case 0
  then show ?case by simp
next
  case (Suc i)
  let ?j = "shd r mod (Suc i + 1)"
  have "?j < Suc (Suc i)" by simp
  then have j: "?j < length xs" using Suc.prems by linarith
  have "mset (xs[Suc i := xs ! ?j, ?j := xs ! Suc i]) = mset xs"
    using mset_swap [OF j Suc.prems] .
  moreover have "i < length (xs[Suc i := xs ! ?j, ?j := xs ! Suc i])"
    using Suc.prems by simp
  ultimately show ?case
    using Suc.IH [of "xs[Suc i := xs ! ?j, ?j := xs ! Suc i]" "stl r"] by (simp add: Let_def)
qed

lemma shuffle_mset [simp]: "mset (fst (shuffle xs r)) = mset xs"
proof (cases xs)
  case Nil
  then show ?thesis by (simp add: shuffle_def)
next
  case (Cons a list)
  then show ?thesis by (simp add: shuffle_def shuffle_from_mset)
qed

lemma shuffle_length [simp]: "length (fst (shuffle xs r)) = length xs"
  by (simp add: shuffle_def)

lemma shuffle_set [simp]: "set (fst (shuffle xs r)) = set xs"
  using shuffle_mset [of xs r] by (metis set_mset_mset)

lemma sample_step_mset:
  assumes "j < length pool"
  shows "add_mset (pool ! j) (mset (take (length pool - 1) (pool[j := pool ! (length pool - 1)]))) = mset pool"
proof -
  from assms obtain xs l where p: "pool = xs @ [l]"
    by (metis list.size(3) not_less_zero rev_exhaust)
  show ?thesis
  proof (cases "j = length xs")
    case True
    then show ?thesis using p by simp
  next
    case False
    then have jl: "j < length xs" using assms p by simp
    then have "pool[j := pool ! (length pool - 1)] = xs[j := l] @ [l]"
      using p by (simp add: list_update_append1)
    then show ?thesis using p jl by (simp add: mset_update nth_append)
  qed
qed

lemma sample_loop_length: "k \<le> length pool \<Longrightarrow> length (fst (sample_loop k pool r)) = k"
proof (induction k arbitrary: pool r)
  case 0 then show ?case by simp
next
  case (Suc k)
  let ?pool' = "take (length pool - 1) (pool[shd r mod length pool := pool ! (length pool - 1)])"
  have "k \<le> length ?pool'" using Suc.prems by simp
  then have "length (fst (sample_loop k ?pool' (stl r))) = k" by (rule Suc.IH)
  then show ?case by (simp add: Let_def case_prod_beta)
qed

lemma sample_loop_mset: "k \<le> length pool \<Longrightarrow> mset (fst (sample_loop k pool r)) \<subseteq># mset pool"
proof (induction k arbitrary: pool r)
  case 0 then show ?case by simp
next
  case (Suc k)
  let ?n = "length pool"
  let ?j = "shd r mod ?n"
  let ?pool' = "take (?n - 1) (pool[?j := pool ! (?n - 1)])"
  have n: "0 < ?n" using Suc.prems by (cases pool) simp_all
  then have j: "?j < ?n" by simp
  have len: "k \<le> length ?pool'" using Suc.prems by simp
  have "mset (fst (sample_loop k ?pool' (stl r))) \<subseteq># mset ?pool'"
    using Suc.IH [OF len] .
  then have "add_mset (pool ! ?j) (mset (fst (sample_loop k ?pool' (stl r)))) \<subseteq># mset pool"
    using sample_step_mset [OF j] mset_subset_eq_add_mset_cancel [of "pool ! ?j" "mset (fst (sample_loop k ?pool' (stl r)))" "mset ?pool'"] by simp
  then show ?case by (simp add: Let_def case_prod_beta)
qed

section \<open>Properties of the generator's loops\<close>

lemma for_each_length: "for_each f xs s = Inr (ys, s') \<Longrightarrow> length ys = length xs"
  by (induction xs arbitrary: s ys) (auto split: sum.splits prod.splits)

lemma for_each_map:
  assumes "\<And>x s0 y s1. x \<in> set xs \<Longrightarrow> f x s0 = Inr (y, s1) \<Longrightarrow> g y = h x"
  shows "for_each f xs s = Inr (ys, s') \<Longrightarrow> map g ys = map h xs"
  using assms
  by (induction xs arbitrary: s ys) (auto split: sum.splits prod.splits)

lemma for_each_origin:
  "for_each f xs s = Inr (ys, s') \<Longrightarrow> y \<in> set ys \<Longrightarrow> \<exists>x\<in>set xs. \<exists>s0 s1. f x s0 = Inr (y, s1)"
proof (induction xs arbitrary: s ys)
  case Nil
  then show ?case by simp
next
  case (Cons x xs)
  from Cons.prems(1) obtain y0 s0 ys0 where
    fx: "f x s = Inr (y0, s0)" and rest: "for_each f xs s0 = Inr (ys0, s')" and ys: "ys = y0 # ys0"
    by (auto split: sum.splits prod.splits)
  show ?case
  proof (cases "y = y0")
    case True
    then show ?thesis using fx by auto
  next
    case False
    then have "y \<in> set ys0" using Cons.prems(2) ys by simp
    from Cons.IH [OF rest this] show ?thesis by auto
  qed
qed

lemma for_each_total:
  assumes "\<And>x s0. x \<in> set xs \<Longrightarrow> \<exists>y s1. f x s0 = Inr (y, s1)"
  shows "\<exists>ys s'. for_each f xs s = Inr (ys, s')"
  using assms
proof (induction xs arbitrary: s)
  case Nil
  then show ?case by simp
next
  case (Cons x xs)
  from Cons.prems [of x s] obtain y s1 where fx: "f x s = Inr (y, s1)" by auto
  from Cons.IH [of s1] Cons.prems obtain ys s' where "for_each f xs s1 = Inr (ys, s')"
    by (meson list.set_intros(2))
  with fx show ?case by simp
qed

lemma select_random_total:
  "0 \<le> cnt \<Longrightarrow> \<exists>xs s'. select_random items cnt s = Inr (xs, s')"
  by (auto simp: select_random_def sample_def split: prod.splits)

lemma select_random_negative:
  "cnt < 0 \<Longrightarrow> select_random items cnt s = Inl ValueError"
  by (simp add: select_random_def sample_def)

lemma select_random_mset:
  "select_random items cnt s = Inr (xs, s') \<Longrightarrow> mset xs \<subseteq># mset items"
  using sample_loop_mset [of "nat cnt" items "rand s"]
  by (auto simp: select_random_def sample_def split: if_splits prod.splits)

lemma select_random_length:
  "select_random items cnt s = Inr (xs, s') \<Longrightarrow> int (length xs) = min cnt (int (length items))"
  using sample_loop_length [of "nat cnt" items "rand s"]
  by (auto simp: select_random_def sample_def split: if_splits prod.splits)

lemma fill_in_blank_exercise_Inr:
  "\<exists>e s'. fill_in_blank_exercise d item s = Inr (e, s')"
  by (simp add: fill_in_blank_exercise_def Let_def case_prod_beta)

lemma fill_in_blank_exercise_ids:
  "fill_in_blank_exercise d item s = Inr (e, s') \<Longrightarrow> vocabulary_ids e = [item_id item]"
  by (auto simp: fill_in_blank_exercise_def Let_def case_prod_beta)

lemma hangman_exercise_Inr:
  "\<exists>e s'. hangman_exercise d item s = Inr (e, s')"
  by (simp add: hangman_exercise_def Let_def case_prod_beta)

lemma hangman_exercise_ids:
  "hangman_exercise d item s = Inr (e, s') \<Longrightarrow> vocabulary_ids e = [item_id item]"
  by (auto simp: hangman_exercise_def Let_def case_prod_beta)

lemma spelling_hint_for_Inr:
  "english \<noteq> [] \<Longrightarrow> \<exists>h. spelling_hint_for config english = Inr h"
  by (cases english) (simp_all add: spelling_hint_for_def)

lemma spelling_exercise_Inr:
  "get_english item \<noteq> [] \<Longrightarrow> \<exists>e s'. spelling_exercise d item s = Inr (e, s')"
  using spelling_hint_for_Inr [of "get_english item" "DIFFICULTY_CONFIG d"]
  by (auto simp: spelling_exercise_def Let_def case_prod_beta)

lemma spelling_exercise_ids:
  "spelling_exercise d item s = Inr (e, s') \<Longrightarrow> vocabulary_ids e = [item_id item]"
  by (auto simp: spelling_exercise_def Let_def case_prod_beta split: sum.splits)

lemma filter_by_difficulty_set:
  "item \<in> set (filter_by_difficulty vocab d) \<longleftrightarrow>
     item \<in> set vocab \<and> get_english item \<noteq> [] \<and>
     length (get_english item) \<le> max_word_length (DIFFICULTY_CONFIG d)"
  by (auto simp: filter_by_difficulty_def Let_def)


section \<open>Properties of the matching loop\<close>

lemma mset_take_subseteq: "mset (take n xs) \<subseteq># mset xs"
  by (metis append_take_drop_id mset_append mset_subset_eq_add_left)

lemma mset_drop_subseteq: "mset (drop n xs) \<subseteq># mset xs"
  by (metis append_take_drop_id mset_append mset_subset_eq_add_right)



lemma make_pairs_vocabulary_id [simp]:
  "map vocabulary_id (fst (make_pairs items s)) = map item_id items"
  by (induction items arbitrary: s) (simp_all add: Let_def case_prod_beta)

lemma make_pairs_left [simp]:
  "map left (fst (make_pairs items s)) = map get_english items"
  by (induction items arbitrary: s) (simp_all add: Let_def case_prod_beta)

lemma make_pairs_right [simp]:
  "map right (fst (make_pairs items s)) = map get_german items"
  by (induction items arbitrary: s) (simp_all add: Let_def case_prod_beta)

lemma shuffle_src_mset [simp]: "mset (fst (shuffle_src xs s)) = mset xs"
  by (simp add: shuffle_src_def case_prod_beta)

lemma matching_loop_length [simp]:
  "length (fst (matching_loop n vocabulary d remaining s)) = n"
  by (induction n arbitrary: remaining s) (simp_all add: Let_def case_prod_beta)

lemma matching_loop_exercise:
  assumes "mset remaining \<subseteq># mset vocabulary"
    and "e \<in> set (fst (matching_loop n vocabulary d remaining s))"
  shows "\<exists>selected prs shuffled.
           payload e = Matching prs shuffled \<and>
           mset selected \<subseteq># mset vocabulary \<and>
           length selected \<le> matching_pairs (DIFFICULTY_CONFIG d) \<and>
           vocabulary_ids e = map item_id selected \<and>
           map vocabulary_id prs = map item_id selected \<and>
           map left prs = map get_english selected \<and>
           map right prs = map get_german selected \<and>
           mset shuffled = mset (map right prs)"
  using assms
proof (induction n arbitrary: remaining s)
  case 0
  then show ?case by simp
next
  case (Suc n)
  let ?ppe = "matching_pairs (DIFFICULTY_CONFIG d)"
  let ?p1 = "if length remaining < ?ppe then shuffle_src vocabulary s else (remaining, s)"
  let ?selected = "take ?ppe (fst ?p1)"
  let ?remaining2 = "drop ?ppe (fst ?p1)"
  let ?mp = "make_pairs ?selected (snd ?p1)"
  let ?sh = "shuffle_src (map right (fst ?mp)) (snd ?mp)"
  let ?u = "uuid_hex8 (snd ?sh)"
  let ?ex = "\<lparr>ex_id = str_of ''match_'' @ fst ?u, ex_type = MATCHING, ex_difficulty = d,
             vocabulary_ids = map vocabulary_id (fst ?mp),
             instructions = str_of ''Match the English words with their German translations.'',
             payload = Matching (fst ?mp) (fst ?sh)\<rparr>"
  have r1: "mset (fst ?p1) \<subseteq># mset vocabulary"
    using Suc.prems(1) by simp
  have sel: "mset ?selected \<subseteq># mset vocabulary"
    using r1 mset_take_subseteq [of ?ppe "fst ?p1"] by (rule subset_mset.order_trans [rotated])
  have r2: "mset ?remaining2 \<subseteq># mset vocabulary"
    using r1 mset_drop_subseteq [of ?ppe "fst ?p1"] by (rule subset_mset.order_trans [rotated])
  have unfold: "fst (matching_loop (Suc n) vocabulary d remaining s) =
                 ?ex # fst (matching_loop n vocabulary d ?remaining2 (snd ?u))"
    by (simp add: Let_def case_prod_beta)
  from Suc.prems(2) unfold
  consider "e = ?ex" | "e \<in> set (fst (matching_loop n vocabulary d ?remaining2 (snd ?u)))"
    by auto
  then show ?case
  proof cases
    case 1
    show ?thesis
      apply (rule exI [of _ ?selected], rule exI [of _ "fst ?mp"], rule exI [of _ "fst ?sh"])
      using sel by (simp add: 1)
  next
    case 2
    from Suc.IH [OF r2 2] show ?thesis .
  qed
qed

section \<open>Properties of the scramble loop\<close>

lemma shuffles_mset [simp]: "mset (fst (shuffle_times n xs r)) = mset xs"
  by (induction n) (simp_all add: case_prod_beta)

lemma scramble_loop_shuffles:
  assumes "shuffle_times (Suc a) lowered r0 = (letters, r')"
    and "a \<le> 10"
    and "\<And>k. 1 \<le> k \<Longrightarrow> k \<le> a \<Longrightarrow> fst (shuffle_times k lowered r0) = lowered"
  shows "\<exists>m. Suc a \<le> m \<and> m \<le> 11 \<and>
             scramble_loop lowered letters a r' = shuffle_times m lowered r0 \<and>
             (\<forall>k. 1 \<le> k \<and> k < m \<longrightarrow> fst (shuffle_times k lowered r0) = lowered) \<and>
             (m < 11 \<longrightarrow> fst (shuffle_times m lowered r0) \<noteq> lowered)"
  using assms
proof (induction "10 - a" arbitrary: a letters r')
  case 0
  then have a: "a = 10" by simp
  have "scramble_loop lowered letters a r' = (letters, r')"
    using a by (simp add: scramble_loop.simps)
  then have "scramble_loop lowered letters a r' = shuffle_times 11 lowered r0"
    using "0.prems"(1) a by (simp add: eval_nat_numeral)
  moreover have "\<forall>k. 1 \<le> k \<and> k < 11 \<longrightarrow> fst (shuffle_times k lowered r0) = lowered"
    using "0.prems"(3) a by simp
  ultimately show ?case using a by (intro exI [of _ 11]) simp
next
  case (Suc n)
  then have a: "a < 10" by simp
  show ?case
  proof (cases "letters = lowered")
    case False
    then have "scramble_loop lowered letters a r' = (letters, r')"
      by (simp add: scramble_loop.simps)
    then have eq: "scramble_loop lowered letters a r' = shuffle_times (Suc a) lowered r0"
      using Suc.prems(1) by simp
    have neq: "fst (shuffle_times (Suc a) lowered r0) \<noteq> lowered"
      using Suc.prems(1) False by simp
    have "\<forall>k. 1 \<le> k \<and> k < Suc a \<longrightarrow> fst (shuffle_times k lowered r0) = lowered"
      using Suc.prems(3) by simp
    with eq neq a show ?thesis by (intro exI [of _ "Suc a"]) simp
  next
    case True
    obtain letters' r'' where sh: "shuffle letters r' = (letters', r'')"
      by (cases "shuffle letters r'")
    have step: "scramble_loop lowered letters a r' = scramble_loop lowered letters' (Suc a) r''"
      using True a sh by (subst scramble_loop.simps) simp
    have next_state: "shuffle_times (Suc (Suc a)) lowered r0 = (letters', r'')"
      using Suc.prems(1) sh by simp
    have n: "n = 10 - Suc a" using Suc.hyps(2) by simp
    have le: "Suc a \<le> 10" using a by simp
    have all: "\<And>k. 1 \<le> k \<Longrightarrow> k \<le> Suc a \<Longrightarrow> fst (shuffle_times k lowered r0) = lowered"
    proof -
      fix k :: nat
      assume k: "1 \<le> k" "k \<le> Suc a"
      show "fst (shuffle_times k lowered r0) = lowered"
      proof (cases "k = Suc a")
        case True
        then show ?thesis using Suc.prems(1) \<open>letters = lowered\<close> by simp
      next
        case False
        then have "k \<le> a" using k by simp
        then show ?thesis using Suc.prems(3) k(1) by simp
      qed
    qed
    from Suc.hyps(1) [OF n next_state le all]
    obtain m where m: "Suc (Suc a) \<le> m" "m \<le> 11"
      "scramble_loop lowered letters' (Suc a) r'' = shuffle_times m lowered r0"
      "\<forall>k. 1 \<le> k \<and> k < m \<longrightarrow> fst (shuffle_times k lowered r0) = lowered"
      "m < 11 \<longrightarrow> fst (shuffle_times m lowered r0) \<noteq> lowered"
      by blast
    then show ?thesis using step by (intro exI [of _ m]) simp
  qed
qed

lemma scramble_shuffles:
  "\<exists>m. 1 \<le> m \<and> m \<le> 11 \<and> scramble lowered r = shuffle_times m lowered r \<and>
       (\<forall>k. 1 \<le> k \<and> k < m \<longrightarrow> fst (shuffle_times k lowered r) = lowered) \<and>
       (m < 11 \<longrightarrow> fst (shuffle_times m lowered r) \<noteq> lowered)"
proof -
  obtain letters r0 where sh: "shuffle lowered r = (letters, r0)"
    by (cases "shuffle lowered r")
  then have s1: "shuffle_times (Suc 0) lowered r = (letters, r0)" by simp
  have sc: "scramble lowered r = scramble_loop lowered letters 0 r0"
    using sh by (simp add: scramble_def)
  from scramble_loop_shuffles [OF s1] obtain m where
    "Suc 0 \<le> m" "m \<le> 11" "scramble_loop lowered letters 0 r0 = shuffle_times m lowered r"
    "\<forall>k. 1 \<le> k \<and> k < m \<longrightarrow> fst (shuffle_times k lowered r) = lowered"
    "m < 11 \<longrightarrow> fst (shuffle_times m lowered r) \<noteq> lowered"
    by auto
  then show ?thesis using sc by (intro exI [of _ m]) simp
qed

lemma scramble_mset [simp]: "mset (fst (scramble lowered r)) = mset lowered"
  using scramble_shuffles [of lowered r] by (metis shuffles_mset)

lemma scramble_unchanged:
  assumes "fst (scramble lowered r) = lowered" and "1 \<le> k" and "k \<le> 11"
  shows "fst (shuffle_times k lowered r) = lowered"
proof -
  from scramble_shuffles [of lowered r] obtain m where m: "1 \<le> m" "m \<le> 11"
    "scramble lowered r = shuffle_times m lowered r"
    "\<forall>k. 1 \<le> k \<and> k < m \<longrightarrow> fst (shuffle_times k lowered r) = lowered"
    "m < 11 \<longrightarrow> fst (shuffle_times m lowered r) \<noteq> lowered"
    by blast
  from m(3,5) assms(1) have "m = 11" using m(2) by (cases "m < 11") auto
  show ?thesis
  proof (cases "k = 11")
    case True
    then show ?thesis using m(3) assms(1) \<open>m = 11\<close> by simp
  next
    case False
    then have "k < m" using assms(3) \<open>m = 11\<close> by simp
    then show ?thesis using m(4) assms(2) by simp
  qed
qed


section \<open>The difficulty filter\<close>

text \<open>
  C1. Every generation operation draws from \<open>filter_by_difficulty\<close>, which keeps the
  items whose source word is non-empty and at most 6 (Easy), 10 (Medium) or 100 (Hard)
  characters long. The Hard tier is not unbounded: a vocabulary whose only item has a
  source word of 101 characters has no eligible item at Hard, although the word is
  non-empty.
\<close>

theorem C1_hard_tier_is_bounded:
  "filter_by_difficulty [long_item] HARD = [] \<and>
   get_english long_item \<noteq> [] \<and> length (get_english long_item) = 101 \<and>
   max_word_length (DIFFICULTY_CONFIG EASY) = 6 \<and>
   max_word_length (DIFFICULTY_CONFIG MEDIUM) = 10 \<and>
   max_word_length (DIFFICULTY_CONFIG HARD) = 100"
  by (simp add: filter_by_difficulty_def long_item_def plain_item_def get_english_def)

section \<open>Matching exercises\<close>

lemma generate_matching_exercise:
  assumes "e \<in> set (fst (generate_matching vocab d cnt s))"
  shows "\<exists>selected prs shuffled.
           payload e = Matching prs shuffled \<and>
           mset selected \<subseteq># mset (filter_by_difficulty vocab d) \<and>
           length selected \<le> matching_pairs (DIFFICULTY_CONFIG d) \<and>
           vocabulary_ids e = map item_id selected \<and>
           map vocabulary_id prs = map item_id selected \<and>
           map left prs = map get_english selected \<and>
           map right prs = map get_german selected \<and>
           mset shuffled = mset (map right prs)"
proof -
  let ?voc = "filter_by_difficulty vocab d"
  let ?sh = "shuffle_src ?voc s"
  have "mset (fst ?sh) \<subseteq># mset ?voc" by simp
  moreover have "e \<in> set (fst (matching_loop (nat cnt) ?voc d (fst ?sh) (snd ?sh)))"
    using assms by (simp add: generate_matching_def Let_def case_prod_beta)
  ultimately show ?thesis by (rule matching_loop_exercise)
qed

lemma generate_matching_length [simp]:
  "length (fst (generate_matching vocab d cnt s)) = nat cnt"
  by (simp add: generate_matching_def Let_def case_prod_beta)

text \<open>
  C7. In every exercise that \<open>generate_matching\<close> returns, the shuffled right column has
  the same multiset of values as the right values of the exercise's own pairs: it is a
  permutation of them, for every outcome of the random source.
\<close>

theorem C7_shuffled_right_is_permutation:
  assumes "e \<in> set (fst (generate_matching vocab d cnt s))"
  shows "\<exists>prs shuffled. payload e = Matching prs shuffled \<and>
           mset shuffled = mset (map right prs)"
  using generate_matching_exercise [OF assms] by blast

theorem C7_witness:
  "\<exists>prs shuffled.
     payload (hd (fst (generate_matching four_items EASY 1 (constant_source 0)))) =
       Matching prs shuffled \<and>
     mset shuffled = mset (map right prs)"
proof -
  let ?exs = "fst (generate_matching four_items EASY 1 (constant_source 0))"
  have "length ?exs = 1" by simp
  then have "hd ?exs \<in> set ?exs" by (cases ?exs) simp_all
  then show ?thesis by (rule C7_shuffled_right_is_permutation)
qed



section \<open>Spelling exercises\<close>

lemma str_of_append: "str_of a @ str_of b = str_of (a @ b)"
  by (simp add: str_of_def)

lemma sconst_stl [simp]: "stl (sconst n) = sconst n"
  by (subst siterate.simps(2)) simp

lemma hex8_0: "hex8 0 = str_of ''00000000''"
  by (simp add: hex8_def hex_digit_def str_of_def upt_rec)

lemma uuid_hex8_constant [simp]:
  "uuid_hex8 (constant_source n) = (str_of ''00000000'', constant_source n)"
  by (simp add: uuid_hex8_def constant_source_def hex8_0)

lemma scramble_ab_1:
  "scramble (str_of ''ab'') (sconst (Suc 0)) = (str_of ''ab'', sconst (Suc 0))"
  by (simp add: scramble_def shuffle_def str_of_def scramble_loop.simps)

lemma scramble_ab_0: "scramble (str_of ''ab'') (sconst 0) = (str_of ''ba'', sconst 0)"
  by (simp add: scramble_def shuffle_def str_of_def scramble_loop.simps)

lemma py_lower_ab: "py_lower (str_of ''ab'') = str_of ''ab''"
  by (simp add: py_lower_def str_of_def lower_cp_def is_upper_cp_def)

lemma spelling_hint_ab:
  "spelling_hint_for (DIFFICULTY_CONFIG EASY) (str_of ''ab'') =
     Inr (Some (str_of ''Starts with '' @ [39] @ str_of ''A'' @ [39] @ str_of '', 2 letters''))"
  by (simp add: spelling_hint_for_def str_of_def py_upper_char_def upper_cp_def is_lower_cp_def
      str_nat.simps)

lemma spelling_exercise_ab_1:
  "spelling_exercise EASY ab_item (constant_source (Suc 0)) =
     Inr (ab_exercise (str_of ''ab''), constant_source (Suc 0))"
proof -
  have e: "get_english ab_item = str_of ''ab''" and g: "get_german ab_item = str_of ''x''"
    and i: "item_id ab_item = str_of ''v1''"
    by (simp_all add: ab_item_def plain_item_def get_english_def get_german_def str_of_def)
  have r: "rand (constant_source (Suc 0)) = sconst (Suc 0)"
    and c: "constant_source (Suc 0)\<lparr>rand := sconst (Suc 0)\<rparr> = constant_source (Suc 0)"
    by (simp_all add: constant_source_def)
  show ?thesis
    by (simp add: spelling_exercise_def Let_def e g i py_lower_ab r scramble_ab_1
        spelling_hint_ab c ab_exercise_def str_of_append del: DIFFICULTY_CONFIG.simps)
qed

lemma spelling_exercise_ab_0:
  "spelling_exercise EASY ab_item (constant_source 0) =
     Inr (ab_exercise (str_of ''ba''), constant_source 0)"
proof -
  have e: "get_english ab_item = str_of ''ab''" and g: "get_german ab_item = str_of ''x''"
    and i: "item_id ab_item = str_of ''v1''"
    by (simp_all add: ab_item_def plain_item_def get_english_def get_german_def str_of_def)
  have r: "rand (constant_source 0) = sconst 0"
    and c: "constant_source 0\<lparr>rand := sconst 0\<rparr> = constant_source 0"
    by (simp_all add: constant_source_def)
  show ?thesis
    by (simp add: spelling_exercise_def Let_def e g i py_lower_ab r scramble_ab_0
        spelling_hint_ab c ab_exercise_def str_of_append del: DIFFICULTY_CONFIG.simps)
qed





lemma generate_spelling_origin:
  assumes "generate_spelling vocab d cnt s = Inr (exs, s')" and "e \<in> set exs"
  shows "\<exists>item\<in>set vocab. \<exists>s0 s1. spelling_exercise d item s0 = Inr (e, s1)"
proof -
  from assms(1) obtain selected s1 where
    sel: "select_random (filter_by_difficulty vocab d) cnt s = Inr (selected, s1)"
    and fe: "for_each (spelling_exercise d) selected s1 = Inr (exs, s')"
    by (auto simp: generate_spelling_def split: sum.splits)
  from for_each_origin [OF fe assms(2)] obtain item s0 s2 where
    item: "item \<in> set selected" and body: "spelling_exercise d item s0 = Inr (e, s2)"
    by blast
  have "set selected \<subseteq> set (filter_by_difficulty vocab d)"
    using select_random_mset [OF sel] set_mset_mono by fastforce
  then have "item \<in> set vocab"
    using item by (auto simp: filter_by_difficulty_set)
  with body show ?thesis by blast
qed

lemma spelling_exercise_payload:
  assumes "spelling_exercise d item s0 = Inr (e, s1)"
  shows "english_word (payload e) = get_english item"
    and "german_word (payload e) = get_german item"
    and "scrambled_letters (payload e) = fst (scramble (py_lower (get_english item)) (rand s0))"
  using assms
  by (auto simp: spelling_exercise_def Let_def case_prod_beta split: sum.splits)

text \<open>
  C5. Every exercise of \<open>generate_spelling\<close> is built by the loop body
  \<open>spelling_exercise\<close> from an item of the vocabulary; and whatever the state \<open>s0\<close> of
  the random source the body starts from, the scrambled letters have the same multiset
  of characters as the lower-cased source word, and they are in the original order only
  if the first shuffle and each of the ten bounded reshuffles reproduced that order.
\<close>

theorem C5_scrambled_letters_permutation:
  "(generate_spelling vocab d cnt s = Inr (exs, s') \<longrightarrow>
      (\<forall>e\<in>set exs. \<exists>item\<in>set vocab. \<exists>s0 s1. spelling_exercise d item s0 = Inr (e, s1))) \<and>
   (spelling_exercise d item s0 = Inr (e, s1) \<longrightarrow>
      english_word (payload e) = get_english item \<and>
      mset (scrambled_letters (payload e)) = mset (py_lower (english_word (payload e))) \<and>
      (scrambled_letters (payload e) = py_lower (english_word (payload e)) \<longrightarrow>
         (\<forall>k\<in>{1..11}.
            fst (shuffle_times k (py_lower (english_word (payload e))) (rand s0)) =
              py_lower (english_word (payload e)))))"
proof (intro conjI impI ballI)
  fix e'
  assume "generate_spelling vocab d cnt s = Inr (exs, s')" and "e' \<in> set exs"
  then show "\<exists>item\<in>set vocab. \<exists>s0 s1. spelling_exercise d item s0 = Inr (e', s1)"
    by (rule generate_spelling_origin)
next
  assume a: "spelling_exercise d item s0 = Inr (e, s1)"
  show "english_word (payload e) = get_english item"
    using spelling_exercise_payload(1) [OF a] .
  show "mset (scrambled_letters (payload e)) = mset (py_lower (english_word (payload e)))"
    using spelling_exercise_payload(1,3) [OF a] by simp
next
  fix k :: nat
  assume a: "spelling_exercise d item s0 = Inr (e, s1)"
    and same: "scrambled_letters (payload e) = py_lower (english_word (payload e))"
    and k: "k \<in> {1..11}"
  let ?lowered = "py_lower (get_english item)"
  have "fst (scramble ?lowered (rand s0)) = ?lowered"
    using same spelling_exercise_payload(1,3) [OF a] by simp
  then have "fst (shuffle_times k ?lowered (rand s0)) = ?lowered"
    using k by (intro scramble_unchanged) simp_all
  then show "fst (shuffle_times k (py_lower (english_word (payload e))) (rand s0)) =
               py_lower (english_word (payload e))"
    using spelling_exercise_payload(1) [OF a] by simp
qed

theorem C5_witness:
  "spelling_exercise EASY ab_item (constant_source 1) =
     Inr (ab_exercise (str_of ''ab''), constant_source 1) \<and>
   scrambled_letters (payload (ab_exercise (str_of ''ab''))) =
     py_lower (english_word (payload (ab_exercise (str_of ''ab'')))) \<and>
   mset (scrambled_letters (payload (ab_exercise (str_of ''ab'')))) =
     mset (py_lower (english_word (payload (ab_exercise (str_of ''ab''))))) \<and>
   fst (shuffle_times 11 (py_lower (english_word (payload (ab_exercise (str_of ''ab'')))))
          (rand (constant_source 1))) =
     py_lower (english_word (payload (ab_exercise (str_of ''ab''))))"
proof -
  let ?e = "ab_exercise (str_of ''ab'')"
  have b: "spelling_exercise EASY ab_item (constant_source 1) = Inr (?e, constant_source 1)"
    using spelling_exercise_ab_1 by simp
  have l: "scrambled_letters (payload ?e) = py_lower (english_word (payload ?e))"
    by (simp add: ab_exercise_def py_lower_ab)
  have k: "(11::nat) \<in> {1..11}" by simp
  have "spelling_exercise EASY ab_item (constant_source 1) = Inr (?e, constant_source 1) \<longrightarrow>
      english_word (payload ?e) = get_english ab_item \<and>
      mset (scrambled_letters (payload ?e)) = mset (py_lower (english_word (payload ?e))) \<and>
      (scrambled_letters (payload ?e) = py_lower (english_word (payload ?e)) \<longrightarrow>
         (\<forall>k\<in>{1..11}.
            fst (shuffle_times k (py_lower (english_word (payload ?e))) (rand (constant_source 1))) =
              py_lower (english_word (payload ?e))))"
    using C5_scrambled_letters_permutation
      [where item = ab_item and d = EASY and ?s0.0 = "constant_source 1"
         and e = ?e and ?s1.0 = "constant_source 1"]
    by (rule conjunct2)
  with b l k show ?thesis by blast
qed




section \<open>Exercise sets\<close>

lemma generate_spelling_selection:
  assumes "generate_spelling vocab d cnt s = Inr (exs, s')"
  shows "\<exists>selected. mset selected \<subseteq># mset (filter_by_difficulty vocab d) \<and>
           int (length selected) = min cnt (int (length (filter_by_difficulty vocab d))) \<and>
           map vocabulary_ids exs = map (\<lambda>x. [item_id x]) selected"
proof -
  from assms obtain selected s1 where
    sel: "select_random (filter_by_difficulty vocab d) cnt s = Inr (selected, s1)"
    and fe: "for_each (spelling_exercise d) selected s1 = Inr (exs, s')"
    by (auto simp: generate_spelling_def split: sum.splits)
  have "map vocabulary_ids exs = map (\<lambda>x. [item_id x]) selected"
    using fe by (rule for_each_map [rotated]) (rule spelling_exercise_ids)
  with select_random_mset [OF sel] select_random_length [OF sel] show ?thesis by blast
qed

lemma generate_hangman_selection:
  assumes "generate_hangman vocab d cnt s = Inr (exs, s')"
  shows "\<exists>selected. mset selected \<subseteq># mset (filter_by_difficulty vocab d) \<and>
           int (length selected) = min cnt (int (length (filter_by_difficulty vocab d))) \<and>
           map vocabulary_ids exs = map (\<lambda>x. [item_id x]) selected"
proof -
  from assms obtain selected s1 where
    sel: "select_random (filter_by_difficulty vocab d) cnt s = Inr (selected, s1)"
    and fe: "for_each (hangman_exercise d) selected s1 = Inr (exs, s')"
    by (auto simp: generate_hangman_def split: sum.splits)
  have "map vocabulary_ids exs = map (\<lambda>x. [item_id x]) selected"
    using fe by (rule for_each_map [rotated]) (rule hangman_exercise_ids)
  with select_random_mset [OF sel] select_random_length [OF sel] show ?thesis by blast
qed

lemma generate_fill_in_blank_selection:
  assumes "generate_fill_in_blank vocab d cnt s = Inr (exs, s')"
  shows "\<exists>selected. mset selected \<subseteq># mset (filter_by_difficulty vocab d) \<and>
           int (length selected) = min cnt (int (length (filter_by_difficulty vocab d))) \<and>
           map vocabulary_ids exs = map (\<lambda>x. [item_id x]) selected"
proof -
  let ?pool = "filter_by_difficulty vocab d"
  let ?P = "\<lambda>v. truthy (get_example_sentence v)"
  let ?with = "filter ?P ?pool"
  let ?without = "filter (\<lambda>v. \<not> ?P v) ?pool"
  have part: "mset ?with + mset ?without = mset ?pool"
    by (simp add: multiset_partition [symmetric])
  have len: "length ?with + length ?without = length ?pool"
    by (rule sum_length_filter_compl)
  from assms obtain sel1 s1 where
    sel1: "select_random ?with cnt s = Inr (sel1, s1)"
    by (auto simp: generate_fill_in_blank_def Let_def split: sum.splits)
  note m1 = select_random_mset [OF sel1] and l1 = select_random_length [OF sel1]
  show ?thesis
  proof (cases "int (length sel1) < cnt")
    case True
    with assms sel1 obtain sel2 s2 where
      sel2: "select_random ?without (cnt - int (length sel1)) s1 = Inr (sel2, s2)"
      and fe: "for_each (fill_in_blank_exercise d) (sel1 @ sel2) s2 = Inr (exs, s')"
      by (auto simp: generate_fill_in_blank_def Let_def split: sum.splits)
    note m2 = select_random_mset [OF sel2] and l2 = select_random_length [OF sel2]
    have ids: "map vocabulary_ids exs = map (\<lambda>x. [item_id x]) (sel1 @ sel2)"
      using fe by (rule for_each_map [rotated]) (rule fill_in_blank_exercise_ids)
    have "mset sel1 + mset sel2 \<subseteq># mset ?with + mset ?without"
      using m1 m2 by (rule mset_subset_eq_mono_add)
    then have sub: "mset (sel1 @ sel2) \<subseteq># mset ?pool"
      by (simp only: mset_append part)
    have "int (length (sel1 @ sel2)) = min cnt (int (length ?pool))"
      using l1 l2 len True by (simp add: min_def split: if_splits)
    with sub ids show ?thesis by blast
  next
    case False
    with assms sel1 have fe: "for_each (fill_in_blank_exercise d) sel1 s1 = Inr (exs, s')"
      by (auto simp: generate_fill_in_blank_def Let_def split: sum.splits)
    have ids: "map vocabulary_ids exs = map (\<lambda>x. [item_id x]) sel1"
      using fe by (rule for_each_map [rotated]) (rule fill_in_blank_exercise_ids)
    have "mset ?with \<subseteq># mset ?pool" by simp
    with m1 have sub: "mset sel1 \<subseteq># mset ?pool" by (rule subset_mset.order_trans)
    have "int (length sel1) = min cnt (int (length ?pool))"
      using l1 len False by (simp add: min_def split: if_splits)
    with sub ids show ?thesis by blast
  qed
qed

lemma generate_spelling_total:
  assumes "0 \<le> cnt"
  shows "\<exists>exs s'. generate_spelling vocab d cnt s = Inr (exs, s')"
proof -
  from select_random_total [OF assms] obtain selected s1 where
    sel: "select_random (filter_by_difficulty vocab d) cnt s = Inr (selected, s1)"
    by blast
  have "set selected \<subseteq> set (filter_by_difficulty vocab d)"
    using select_random_mset [OF sel] set_mset_mono by fastforce
  then have "\<And>x s0. x \<in> set selected \<Longrightarrow> \<exists>y s1. spelling_exercise d x s0 = Inr (y, s1)"
    by (intro spelling_exercise_Inr) (auto simp: filter_by_difficulty_set)
  from for_each_total [of selected "spelling_exercise d", OF this]
  obtain exs s' where "for_each (spelling_exercise d) selected s1 = Inr (exs, s')"
    by blast
  with sel show ?thesis by (simp add: generate_spelling_def)
qed

lemma generate_hangman_total:
  assumes "0 \<le> cnt"
  shows "\<exists>exs s'. generate_hangman vocab d cnt s = Inr (exs, s')"
proof -
  from select_random_total [OF assms] obtain selected s1 where
    sel: "select_random (filter_by_difficulty vocab d) cnt s = Inr (selected, s1)"
    by blast
  from for_each_total [of selected "hangman_exercise d", OF hangman_exercise_Inr]
  obtain exs s' where "for_each (hangman_exercise d) selected s1 = Inr (exs, s')"
    by blast
  with sel show ?thesis by (simp add: generate_hangman_def)
qed

lemma generate_fill_in_blank_total:
  assumes "0 \<le> cnt"
  shows "\<exists>exs s'. generate_fill_in_blank vocab d cnt s = Inr (exs, s')"
proof -
  let ?pool = "filter_by_difficulty vocab d"
  let ?P = "\<lambda>v. truthy (get_example_sentence v)"
  from select_random_total [OF assms] obtain sel1 s1 where
    sel1: "select_random (filter ?P ?pool) cnt s = Inr (sel1, s1)"
    by blast
  show ?thesis
  proof (cases "int (length sel1) < cnt")
    case True
    then have "0 \<le> cnt - int (length sel1)" by simp
    from select_random_total [OF this] obtain sel2 s2 where
      sel2: "select_random (filter (\<lambda>v. \<not> ?P v) ?pool) (cnt - int (length sel1)) s1 = Inr (sel2, s2)"
      by blast
    from for_each_total [of "sel1 @ sel2" "fill_in_blank_exercise d", OF fill_in_blank_exercise_Inr]
    obtain exs s' where "for_each (fill_in_blank_exercise d) (sel1 @ sel2) s2 = Inr (exs, s')"
      by blast
    with sel1 sel2 True show ?thesis by (simp add: generate_fill_in_blank_def Let_def)
  next
    case False
    from for_each_total [of sel1 "fill_in_blank_exercise d", OF fill_in_blank_exercise_Inr]
    obtain exs s' where "for_each (fill_in_blank_exercise d) sel1 s1 = Inr (exs, s')"
      by blast
    with sel1 False show ?thesis by (simp add: generate_fill_in_blank_def Let_def)
  qed
qed

lemma generate_exercises_selection:
  assumes "generate_exercises vocab kind d cnt s = Inr (exs, s')" and "kind \<noteq> MATCHING"
  shows "\<exists>selected. mset selected \<subseteq># mset (filter_by_difficulty vocab d) \<and>
           int (length selected) = min cnt (int (length (filter_by_difficulty vocab d))) \<and>
           map vocabulary_ids exs = map (\<lambda>x. [item_id x]) selected"
  using assms generate_fill_in_blank_selection generate_spelling_selection
    generate_hangman_selection
  by (cases kind) (simp_all add: generate_exercises_def)

lemma generate_exercises_total:
  assumes "0 \<le> cnt"
  shows "\<exists>exs s'. generate_exercises vocab kind d cnt s = Inr (exs, s')"
  using generate_fill_in_blank_total [OF assms] generate_spelling_total [OF assms]
    generate_hangman_total [OF assms]
  by (cases kind) (simp_all add: generate_exercises_def prod_eq_iff)

lemma generate_exercise_set_Inr:
  "generate_exercise_set vocab kind d cnt name now s = Inr (st, s2) \<Longrightarrow>
     \<exists>s1. generate_exercises vocab kind d cnt s = Inr (exercises st, s1) \<and>
          exercise_type st = kind \<and> difficulty st = d \<and> created_at st = now"
  by (auto simp: generate_exercise_set_def Let_def case_prod_beta split: sum.splits)


lemma generate_exercise_set_total:
  assumes "generate_exercises vocab kind d cnt s = Inr (exs, s1)"
  shows "\<exists>st s2. generate_exercise_set vocab kind d cnt name now s = Inr (st, s2) \<and>
           exercises st = exs"
  using assms by (simp add: generate_exercise_set_def Let_def case_prod_beta)

lemma generate_exercises_matching:
  "generate_exercises vocab MATCHING d cnt s = Inr (generate_matching vocab d cnt s)"
  by (simp add: generate_exercises_def)


lemma filter_four: "filter_by_difficulty four_items EASY = four_items"
  by (simp add: filter_by_difficulty_def four_items_def plain_item_def get_english_def str_of_def)


text \<open>
  C8. For every kind and difficulty, the vocabulary ids of every exercise of a generated
  set are ids of items of the vocabulary the generator was given.
\<close>

theorem C8_vocabulary_ids_from_input:
  assumes "generate_exercise_set vocab kind d cnt name now s = Inr (st, s')"
    and "e \<in> set (exercises st)"
  shows "set (vocabulary_ids e) \<subseteq> item_id ` set vocab"
proof -
  from generate_exercise_set_Inr [OF assms(1)] obtain s1 where
    g: "generate_exercises vocab kind d cnt s = Inr (exercises st, s1)" by blast
  show ?thesis
  proof (cases "kind = MATCHING")
    case True
    with g have "exercises st = fst (generate_matching vocab d cnt s)"
      by (simp add: generate_exercises_matching prod_eq_iff)
    with assms(2) have "e \<in> set (fst (generate_matching vocab d cnt s))" by simp
    from generate_matching_exercise [OF this] obtain selected where
      sub: "mset selected \<subseteq># mset (filter_by_difficulty vocab d)"
      and ids: "vocabulary_ids e = map item_id selected"
      by blast
    have "set selected \<subseteq> set (filter_by_difficulty vocab d)"
      using sub set_mset_mono by fastforce
    then have "set selected \<subseteq> set vocab"
      by (auto simp: filter_by_difficulty_set)
    then show ?thesis using ids by auto
  next
    case False
    from generate_exercises_selection [OF g False] obtain selected where
      sub: "mset selected \<subseteq># mset (filter_by_difficulty vocab d)"
      and ids: "map vocabulary_ids (exercises st) = map (\<lambda>x. [item_id x]) selected"
      by blast
    have "set selected \<subseteq> set (filter_by_difficulty vocab d)"
      using sub set_mset_mono by fastforce
    then have sel: "set selected \<subseteq> set vocab"
      by (auto simp: filter_by_difficulty_set)
    have "vocabulary_ids e \<in> set (map vocabulary_ids (exercises st))"
      using assms(2) by simp
    then have "vocabulary_ids e \<in> set (map (\<lambda>x. [item_id x]) selected)"
      by (simp only: ids)
    then obtain x where "x \<in> set selected" "vocabulary_ids e = [item_id x]" by auto
    then show ?thesis using sel by auto
  qed
qed

theorem C8_witness:
  "\<exists>st s'. generate_exercise_set four_items HANGMAN EASY 10 None [] (constant_source 0) =
             Inr (st, s') \<and>
           hd (exercises st) \<in> set (exercises st) \<and>
           set (vocabulary_ids (hd (exercises st))) \<subseteq> item_id ` set four_items"
proof -
  have "(0::int) \<le> 10" by simp
  from generate_exercises_total [OF this, of four_items HANGMAN EASY "constant_source 0"]
  obtain exs s1 where
    g: "generate_exercises four_items HANGMAN EASY 10 (constant_source 0) = Inr (exs, s1)"
    by blast
  from generate_exercise_set_total [OF g, of None "[]"] obtain st s2 where
    st: "generate_exercise_set four_items HANGMAN EASY 10 None [] (constant_source 0) = Inr (st, s2)"
    and exs: "exercises st = exs" by blast
  have k: "HANGMAN \<noteq> MATCHING" by simp
  from generate_exercises_selection [OF g k] obtain selected :: "vocab_item list" where
    len: "int (length selected) = min 10 (int (length (filter_by_difficulty four_items EASY)))"
    and ids: "map vocabulary_ids exs = map (\<lambda>x. [item_id x]) selected"
    by blast
  have "length exs = length selected" using ids by (metis length_map)
  moreover have "length selected = 4"
    using len by (simp add: filter_four) (simp add: four_items_def)
  ultimately have "exercises st \<noteq> []" using exs by auto
  then have m: "hd (exercises st) \<in> set (exercises st)" by simp
  from C8_vocabulary_ids_from_input [OF st m] st m show ?thesis by blast
qed

section \<open>Recycling of the matching pool\<close>

lemma shuffle_from_constant [simp]: "snd (shuffle_from i xs (sconst n)) = sconst n"
  by (induction i arbitrary: xs) (simp_all add: Let_def)

lemma shuffle_src_constant [simp]:
  "snd (shuffle_src xs (constant_source n)) = constant_source n"
  by (simp add: shuffle_src_def shuffle_def case_prod_beta constant_source_def)

lemma make_pairs_constant [simp]:
  "snd (make_pairs items (constant_source n)) = constant_source n"
  by (induction items) (simp_all add: Let_def case_prod_beta)








section \<open>The fill-in-blank example\<close>

lemma sub_sleeve:
  "re_sub_ignorecase (str_of ''sleeve'') blank (str_of ''She has short sleeves.'') =
     str_of ''She has short ___s.''"
  by (simp add: re_sub_ignorecase_def blank_def str_of_def ci_prefix_def lower_cp_def
      is_upper_cp_def)

lemma split_sleeve:
  "py_split (str_of ''She has short ___s.'') =
     [str_of ''She'', str_of ''has'', str_of ''short'', str_of ''___s.'']"
  by (simp add: py_split_def str_of_def is_space_def)

lemma find_blank_sleeve:
  "find_index_from 0 (contains blank)
     [str_of ''She'', str_of ''has'', str_of ''short'', str_of ''___s.''] = Some 3"
  by (simp add: blank_def str_of_def)

lemma blanked_sleeve: "blanked_sentence sleeve_item = (str_of ''She has short ___s.'', 3)"
proof -
  have e: "get_example_sentence sleeve_item = Some (str_of ''She has short sleeves.'')"
    and w: "get_english sleeve_item = str_of ''sleeve''"
    by (simp_all add: get_example_sentence_def get_english_def sleeve_item_def)
  have ne: "str_of ''She has short sleeves.'' \<noteq> []" by (simp add: str_of_def)
  show ?thesis
    by (simp add: blanked_sentence_def e w ne sub_sleeve split_sleeve find_blank_sleeve
        del: find_index_from.simps)
qed

lemma german_sleeve: "get_german sleeve_item = 196 # str_of ''rmel''"
  by (simp add: get_german_def sleeve_item_def str_of_def)

lemma filter_sleeve: "filter_by_difficulty [sleeve_item] EASY = [sleeve_item]"
  by (simp add: filter_by_difficulty_def get_english_def sleeve_item_def str_of_def)

lemma fill_in_blank_sleeve:
  "fill_in_blank_exercise EASY sleeve_item s =
     Inr (sleeve_exercise (hex8 (shd (uuid s))), s\<lparr>uuid := stl (uuid s)\<rparr>)"
proof -
  have w: "get_english sleeve_item = str_of ''sleeve''"
    and t: "get_word_type sleeve_item = str_of ''noun''"
    and i: "item_id sleeve_item = str_of ''v1''"
    by (simp_all add: get_english_def get_word_type_def sleeve_item_def)
  show ?thesis
    by (simp add: fill_in_blank_exercise_def blanked_sleeve german_sleeve w t i uuid_hex8_def
        sleeve_exercise_def)
qed

text \<open>
  C3, as amended. For the single-item vocabulary of the example and every state of the
  random source, \<open>generate_fill_in_blank\<close> at Easy with count 1 returns exactly one
  exercise, with correct answer \<open>sleeve\<close>, the hint of the target word, and the sentence
  \<open>She has short ___s.\<close>: the occurrence of the source word inside \<open>sleeves\<close> is replaced
  and the plural \<open>s\<close> stays.
\<close>

theorem C3_fill_in_blank_example:
  "generate_fill_in_blank [sleeve_item] EASY 1 s =
     Inr ([sleeve_exercise (hex8 (shd (uuid s)))], s\<lparr>uuid := stl (uuid s)\<rparr>) \<and>
   correct_answer (payload (sleeve_exercise (hex8 (shd (uuid s))))) = str_of ''sleeve'' \<and>
   sentence (payload (sleeve_exercise (hex8 (shd (uuid s))))) = str_of ''She has short ___s.'' \<and>
   fib_hint (payload (sleeve_exercise (hex8 (shd (uuid s))))) = Some (196 # str_of ''rmel'')"
proof -
  have e: "truthy (get_example_sentence sleeve_item)"
    by (simp add: truthy_def get_example_sentence_def sleeve_item_def str_of_def)
  have "generate_fill_in_blank [sleeve_item] EASY 1 s =
     Inr ([sleeve_exercise (hex8 (shd (uuid s)))], s\<lparr>uuid := stl (uuid s)\<rparr>)"
    by (simp add: generate_fill_in_blank_def filter_sleeve e select_random_def
        fill_in_blank_sleeve)
  then show ?thesis by (simp add: sleeve_exercise_def)
qed

text \<open>
  C3. The sentence of the generated exercise is not \<open>She has short ___.\<close>
\<close>

theorem C3_counterexample:
  "generate_fill_in_blank [sleeve_item] EASY 1 (constant_source 0) =
     Inr ([sleeve_exercise (str_of ''00000000'')], constant_source 0) \<and>
   sentence (payload (sleeve_exercise (str_of ''00000000''))) \<noteq> str_of ''She has short ___.''"
proof -
  have e: "truthy (get_example_sentence sleeve_item)"
    by (simp add: truthy_def get_example_sentence_def sleeve_item_def str_of_def)
  have u: "hex8 (shd (uuid (constant_source 0))) = str_of ''00000000''"
    and c: "constant_source 0\<lparr>uuid := stl (uuid (constant_source 0))\<rparr> = constant_source 0"
    by (simp_all add: constant_source_def hex8_0)
  have "generate_fill_in_blank [sleeve_item] EASY 1 (constant_source 0) =
     Inr ([sleeve_exercise (str_of ''00000000'')], constant_source 0)"
    unfolding u [symmetric]
    by (simp add: generate_fill_in_blank_def filter_sleeve e select_random_def
        fill_in_blank_sleeve c)
  then show ?thesis by (simp add: sleeve_exercise_def)
qed

section \<open>Exporting a set\<close>

lemma ensure_directories_dirs:
  "ensure_directories ex fs = fs\<lparr>dirs := dirs fs \<union> exported_dirs ex\<rparr>"
  by (simp add: ensure_directories_def mkdir_parents_def exported_dirs_def Un_assoc
      del: upt_Suc set_map)

lemma ensure_directories_idem:
  "ensure_directories ex (ensure_directories ex fs\<lparr>files := f\<rparr>) =
     ensure_directories ex fs\<lparr>files := f\<rparr>"
  by (simp add: ensure_directories_dirs Un_assoc)

lemma export_set_path:
  "fst (export_set ex fs st) =
     output_dir ex @ [difficulty_value (difficulty st),
                      exercise_type_value (exercise_type st) @ str_of ''.json'']"
  by (simp add: export_set_def Let_def)

lemma export_set_idem:
  "export_set ex (snd (export_set ex fs st)) st = export_set ex fs st"
  by (simp add: export_set_def Let_def ensure_directories_idem)

lemma export_set_content:
  "files (snd (export_set ex fs st)) (fst (export_set ex fs st)) = Some (JObj (set_to_dict st))"
  by (simp add: export_set_def Let_def)

lemma set_to_dict_keys:
  "map fst (set_to_dict st) =
     [str_of ''id'', str_of ''name'', str_of ''exerciseType'', str_of ''difficulty'',
      str_of ''exerciseCount'', str_of ''exercises'', str_of ''createdAt'']"
  by (simp add: set_to_dict_def)

lemma set_to_dict_createdAt:
  "map_of (set_to_dict st) (str_of ''createdAt'') = Some (JStr (created_at st))"
  by (simp add: set_to_dict_def)

text \<open>
  C9. \<open>export_set\<close> writes the set document at
  \<open>output_dir / difficulty / kind.json\<close>, a path that depends on the set only through its
  difficulty and kind. Exporting the same set again leaves the file system as the first
  export left it: the file is overwritten with the same document. The keys of the
  document are the seven listed, \<open>createdAt\<close> is the only timestamp among them, and its
  value is the \<open>created_at\<close> field that \<open>generate_exercise_set\<close> filled from the clock;
  \<open>export_set\<close> reads no clock.
\<close>

theorem C9_export_set_idempotent:
  "fst (export_set ex fs st) =
     output_dir ex @ [difficulty_value (difficulty st),
                      exercise_type_value (exercise_type st) @ str_of ''.json''] \<and>
   files (snd (export_set ex fs st)) (fst (export_set ex fs st)) = Some (JObj (set_to_dict st)) \<and>
   export_set ex (snd (export_set ex fs st)) st = export_set ex fs st \<and>
   map fst (set_to_dict st) =
     [str_of ''id'', str_of ''name'', str_of ''exerciseType'', str_of ''difficulty'',
      str_of ''exerciseCount'', str_of ''exercises'', str_of ''createdAt''] \<and>
   map_of (set_to_dict st) (str_of ''createdAt'') = Some (JStr (created_at st)) \<and>
   (generate_exercise_set vocab kind d cnt name now s = Inr (st, s') \<longrightarrow> created_at st = now)"
  using export_set_path export_set_content export_set_idem set_to_dict_keys
    set_to_dict_createdAt generate_exercise_set_Inr
  by blast

theorem C9_witness:
  "\<exists>st s'. generate_exercise_set four_items HANGMAN EASY 10 None (str_of ''2024-05-01T10:00:00+00:00'')
              (constant_source 0) = Inr (st, s') \<and>
           created_at st = str_of ''2024-05-01T10:00:00+00:00'' \<and>
           export_set \<lparr>output_dir = [str_of ''out'']\<rparr>
             (snd (export_set \<lparr>output_dir = [str_of ''out'']\<rparr> \<lparr>dirs = {}, files = Map.empty\<rparr> st)) st =
           export_set \<lparr>output_dir = [str_of ''out'']\<rparr> \<lparr>dirs = {}, files = Map.empty\<rparr> st"
proof -
  let ?now = "str_of ''2024-05-01T10:00:00+00:00''"
  have "(0::int) \<le> 10" by simp
  from generate_exercises_total [OF this, of four_items HANGMAN EASY "constant_source 0"]
  obtain exs s1 where
    g: "generate_exercises four_items HANGMAN EASY 10 (constant_source 0) = Inr (exs, s1)"
    by blast
  from generate_exercise_set_total [OF g, of None ?now] obtain st s2 where
    st: "generate_exercise_set four_items HANGMAN EASY 10 None ?now (constant_source 0) =
           Inr (st, s2)"
    by blast
  from C9_export_set_idempotent
    [of "\<lparr>output_dir = [str_of ''out'']\<rparr>" "\<lparr>dirs = {}, files = Map.empty\<rparr>" st
       four_items HANGMAN EASY 10 None ?now "constant_source 0" s2]
    st
  show ?thesis by blast
qed

lemma pairing_fold:
  "pairing (map pair_to_dict prs) acc =
     Inr (fold (\<lambda>p. AList.update (left p) (JStr (right p))) prs acc)"
  by (induction prs arbitrary: acc) (simp_all add: pair_to_dict_def)

lemma map_of_fold_update_other:
  "k \<notin> f ` set xs \<Longrightarrow> map_of (fold (\<lambda>x. AList.update (f x) (g x)) xs acc) k = map_of acc k"
  by (induction xs arbitrary: acc) (simp_all add: update_conv')

lemma map_of_fold_update:
  "distinct (map f xs) \<Longrightarrow> x \<in> set xs \<Longrightarrow>
     map_of (fold (\<lambda>x. AList.update (f x) (g x)) xs acc) (f x) = Some (g x)"
proof (induction xs arbitrary: acc)
  case Nil
  then show ?case by simp
next
  case (Cons y ys)
  show ?case
  proof (cases "x = y")
    case True
    then have "f x \<notin> f ` set ys" using Cons.prems(1) by auto
    then show ?thesis using True by (simp add: map_of_fold_update_other update_conv')
  next
    case False
    then show ?thesis using Cons by simp
  qed
qed

lemma update_keys: "fst ` set (AList.update k v al) = insert k (fst ` set al)"
  by (induction al) auto

lemma fold_update_keys:
  "fst ` set (fold (\<lambda>x. AList.update (f x) (g x)) xs acc) = fst ` set acc \<union> f ` set xs"
proof (induction xs arbitrary: acc)
  case Nil
  then show ?case by simp
next
  case (Cons y ys)
  have "fst ` set (fold (\<lambda>x. AList.update (f x) (g x)) (y # ys) acc) =
        fst ` set (AList.update (f y) (g y) acc) \<union> f ` set ys"
    using Cons.IH [of "AList.update (f y) (g y) acc"] by simp
  also have "\<dots> = insert (f y) (fst ` set acc) \<union> f ` set ys"
    by (simp only: update_keys)
  also have "\<dots> = fst ` set acc \<union> f ` set (y # ys)"
    by auto
  finally show ?case .
qed

lemma fold_update_fresh:
  "distinct (map f xs) \<Longrightarrow> f ` set xs \<inter> fst ` set acc = {} \<Longrightarrow>
     fold (\<lambda>x. AList.update (f x) (g x)) xs acc = acc @ map (\<lambda>x. (f x, g x)) xs"
proof (induction xs arbitrary: acc)
  case Nil
  then show ?case by simp
next
  case (Cons y ys)
  have fresh: "f y \<notin> fst ` set acc" using Cons.prems(2) by auto
  then have u: "AList.update (f y) (g y) acc = acc @ [(f y, g y)]"
    by (induction acc) auto
  have "f ` set ys \<inter> fst ` set (acc @ [(f y, g y)]) = {}"
    using Cons.prems by auto
  with Cons.IH [of "acc @ [(f y, g y)]"] Cons.prems(1) u show ?case by simp
qed

section \<open>The answers document\<close>

lemma to_dict_correctAnswer:
  "payload e = FillInBlank sen pos answer hint wt \<Longrightarrow>
     dict_get (to_dict e) (str_of ''correctAnswer'') = JStr answer"
  by (simp add: to_dict_def dict_update_def base_to_dict_def dict_get_def)

lemma to_dict_englishWord:
  "payload e = Spelling german english letters hint \<Longrightarrow>
     dict_get (to_dict e) (str_of ''englishWord'') = JStr english"
  by (simp add: to_dict_def dict_update_def base_to_dict_def dict_get_def)

lemma to_dict_word:
  "payload e = Hangman w hint cat attempts revealed \<Longrightarrow>
     dict_get (to_dict e) (str_of ''word'') = JStr w"
  by (simp add: to_dict_def dict_update_def base_to_dict_def dict_get_def)

lemma to_dict_pairs:
  "payload e = Matching prs shuffled \<Longrightarrow>
     map_of (to_dict e) (str_of ''pairs'') = Some (JArr (map pair_to_dict prs))"
  by (simp add: to_dict_def dict_update_def base_to_dict_def)

lemma to_dict_no_pairs:
  "\<not> is_Matching (payload e) \<Longrightarrow> map_of (to_dict e) (str_of ''pairs'') = None"
  by (cases "payload e") (simp_all add: to_dict_def dict_update_def base_to_dict_def)

lemma exercise_answer_fill_in_blank:
  "is_FillInBlank (payload e) \<Longrightarrow>
     exercise_answer FILL_IN_BLANK e =
       Inr (JObj [(str_of ''answer'', JStr (correct_answer (payload e)))])"
  by (cases "payload e") (simp_all add: exercise_answer_def to_dict_correctAnswer)

lemma exercise_answer_spelling:
  "is_Spelling (payload e) \<Longrightarrow>
     exercise_answer SPELLING e =
       Inr (JObj [(str_of ''answer'', JStr (english_word (payload e)))])"
  by (cases "payload e") (simp_all add: exercise_answer_def to_dict_englishWord)

lemma exercise_answer_hangman:
  "is_Hangman (payload e) \<Longrightarrow>
     exercise_answer HANGMAN e = Inr (JObj [(str_of ''answer'', JStr (word (payload e)))])"
  by (cases "payload e") (simp_all add: exercise_answer_def to_dict_word)

lemma exercise_answer_matching:
  "is_Matching (payload e) \<Longrightarrow>
     exercise_answer MATCHING e =
       Inr (JObj [(str_of ''pairs'',
                   JObj (fold (\<lambda>p. AList.update (left p) (JStr (right p)))
                           (pairs (payload e)) []))])"
  by (cases "payload e") (simp_all add: exercise_answer_def to_dict_pairs pairing_fold)

lemma exercise_answer_total: "\<exists>a. exercise_answer kind e = Inr a"
proof (cases kind)
  case MATCHING
  show ?thesis
  proof (cases "is_Matching (payload e)")
    case True
    then show ?thesis using MATCHING exercise_answer_matching by blast
  next
    case False
    then show ?thesis using MATCHING by (simp add: exercise_answer_def to_dict_no_pairs)
  qed
qed (simp_all add: exercise_answer_def)

lemma set_answers_loop_fold:
  assumes "\<And>e. exercise_answer kind e = Inr (a e)"
  shows "set_answers_loop kind es acc = Inr (fold (\<lambda>e. AList.update (ex_id e) (a e)) es acc)"
  by (induction es arbitrary: acc) (simp_all add: assms)

lemma answers_loop_fold:
  assumes "\<And>st. set_answers_loop (exercise_type st) (exercises st) [] = Inr (b st)"
  shows "answers_loop sets acc =
           Inr (fold (\<lambda>x. AList.update (fst x) (JObj (b (snd x)))) sets acc)"
  by (induction sets arbitrary: acc) (auto simp: assms)

text \<open>
  C4, as amended. \<open>export_answers\<close> writes one document, \<open>answers.json\<close>, whose keys are
  the keys of the given sets. The entry of a set maps the ids of its exercises (when
  they are pairwise distinct) to an object chosen by the kind of the set: \<open>answer\<close> holds
  the correct answer of a fill-in-blank exercise, the English word of a spelling
  exercise, the word to guess of a hangman exercise; \<open>pairs\<close> holds, for a matching
  exercise, a mapping whose keys are the left words, each mapped to its right word when
  the left words are distinct.
\<close>

theorem C4_answers_document:
  assumes keys: "distinct (map fst exercise_sets)"
    and st: "(key, st) \<in> set exercise_sets"
    and ids: "distinct (map ex_id (exercises st))"
    and e: "e \<in> set (exercises st)"
  shows "\<exists>fs' doc set_answers.
     export_answers ex fs exercise_sets = Inr (output_dir ex @ [str_of ''answers.json''], fs') \<and>
     files fs' (output_dir ex @ [str_of ''answers.json'']) = Some (JObj doc) \<and>
     map fst doc = map fst exercise_sets \<and>
     map_of doc key = Some (JObj set_answers) \<and>
     map fst set_answers = map ex_id (exercises st) \<and>
     (exercise_type st = FILL_IN_BLANK \<and> is_FillInBlank (payload e) \<longrightarrow>
        map_of set_answers (ex_id e) =
          Some (JObj [(str_of ''answer'', JStr (correct_answer (payload e)))])) \<and>
     (exercise_type st = SPELLING \<and> is_Spelling (payload e) \<longrightarrow>
        map_of set_answers (ex_id e) =
          Some (JObj [(str_of ''answer'', JStr (english_word (payload e)))])) \<and>
     (exercise_type st = HANGMAN \<and> is_Hangman (payload e) \<longrightarrow>
        map_of set_answers (ex_id e) =
          Some (JObj [(str_of ''answer'', JStr (word (payload e)))])) \<and>
     (exercise_type st = MATCHING \<and> is_Matching (payload e) \<longrightarrow>
        (\<exists>m. map_of set_answers (ex_id e) = Some (JObj [(str_of ''pairs'', JObj m)]) \<and>
             fst ` set m = left ` set (pairs (payload e)) \<and>
             (distinct (map left (pairs (payload e))) \<longrightarrow>
                (\<forall>p\<in>set (pairs (payload e)). map_of m (left p) = Some (JStr (right p))))))"
proof -
  have "\<forall>kind e. \<exists>a. exercise_answer kind e = Inr a"
    using exercise_answer_total by blast
  then obtain a where a: "\<And>kind e. exercise_answer kind e = Inr (a kind e)"
    by metis
  define S where
    "S = (\<lambda>st :: ExerciseSet. fold (\<lambda>e. AList.update (ex_id e) (a (exercise_type st) e)) (exercises st) [])"
  have sl: "\<And>st. set_answers_loop (exercise_type st) (exercises st) [] = Inr (S st)"
    unfolding S_def by (rule set_answers_loop_fold) (rule a)
  define doc where "doc = fold (\<lambda>x. AList.update (fst x) (JObj (S (snd x)))) exercise_sets []"
  have al: "answers_loop exercise_sets [] = Inr doc"
    unfolding doc_def by (rule answers_loop_fold) (rule sl)
  let ?path = "output_dir ex @ [str_of ''answers.json'']"
  let ?fs1 = "ensure_directories ex fs"
  let ?fs' = "?fs1\<lparr>files := (files ?fs1)(?path \<mapsto> JObj doc)\<rparr>"
  have ea: "export_answers ex fs exercise_sets = Inr (?path, ?fs')"
    by (simp add: export_answers_def al Let_def)
  have content: "files ?fs' ?path = Some (JObj doc)" by simp
  have "doc = [] @ map (\<lambda>x. (fst x, JObj (S (snd x)))) exercise_sets"
    unfolding doc_def by (rule fold_update_fresh) (simp_all add: keys)
  then have dkeys: "map fst doc = map fst exercise_sets" by (simp add: comp_def)
  have dkey: "map_of doc key = Some (JObj (S st))"
    using map_of_fold_update [of fst exercise_sets "(key, st)" "\<lambda>x. JObj (S (snd x))" "[]"]
      keys st
    by (simp add: doc_def)
  have "S st = [] @ map (\<lambda>e. (ex_id e, a (exercise_type st) e)) (exercises st)"
    unfolding S_def by (rule fold_update_fresh) (simp_all add: ids)
  then have skeys: "map fst (S st) = map ex_id (exercises st)" by (simp add: comp_def)
  have ans: "map_of (S st) (ex_id e) = Some (a (exercise_type st) e)"
    unfolding S_def using ids e by (rule map_of_fold_update)
  have fib: "exercise_type st = FILL_IN_BLANK \<and> is_FillInBlank (payload e) \<longrightarrow>
        map_of (S st) (ex_id e) =
          Some (JObj [(str_of ''answer'', JStr (correct_answer (payload e)))])"
    using ans a [of FILL_IN_BLANK e] exercise_answer_fill_in_blank [of e] by auto
  have spell: "exercise_type st = SPELLING \<and> is_Spelling (payload e) \<longrightarrow>
        map_of (S st) (ex_id e) =
          Some (JObj [(str_of ''answer'', JStr (english_word (payload e)))])"
    using ans a [of SPELLING e] exercise_answer_spelling [of e] by auto
  have hang: "exercise_type st = HANGMAN \<and> is_Hangman (payload e) \<longrightarrow>
        map_of (S st) (ex_id e) =
          Some (JObj [(str_of ''answer'', JStr (word (payload e)))])"
    using ans a [of HANGMAN e] exercise_answer_hangman [of e] by auto
  have match: "exercise_type st = MATCHING \<and> is_Matching (payload e) \<longrightarrow>
        (\<exists>m. map_of (S st) (ex_id e) = Some (JObj [(str_of ''pairs'', JObj m)]) \<and>
             fst ` set m = left ` set (pairs (payload e)) \<and>
             (distinct (map left (pairs (payload e))) \<longrightarrow>
                (\<forall>p\<in>set (pairs (payload e)). map_of m (left p) = Some (JStr (right p)))))"
  proof
    assume h: "exercise_type st = MATCHING \<and> is_Matching (payload e)"
    let ?m = "fold (\<lambda>p. AList.update (left p) (JStr (right p))) (pairs (payload e)) []"
    have "a MATCHING e = JObj [(str_of ''pairs'', JObj ?m)]"
      using a [of MATCHING e] exercise_answer_matching [of e] h by simp
    then have 1: "map_of (S st) (ex_id e) = Some (JObj [(str_of ''pairs'', JObj ?m)])"
      using ans h by simp
    have 2: "fst ` set ?m = left ` set (pairs (payload e))"
      by (simp add: fold_update_keys)
    have 3: "distinct (map left (pairs (payload e))) \<longrightarrow>
                (\<forall>p\<in>set (pairs (payload e)). map_of ?m (left p) = Some (JStr (right p)))"
      using map_of_fold_update [of left "pairs (payload e)" _ "\<lambda>p. JStr (right p)" "[]"]
      by blast
    from 1 2 3 show "\<exists>m. map_of (S st) (ex_id e) = Some (JObj [(str_of ''pairs'', JObj m)]) \<and>
             fst ` set m = left ` set (pairs (payload e)) \<and>
             (distinct (map left (pairs (payload e))) \<longrightarrow>
                (\<forall>p\<in>set (pairs (payload e)). map_of m (left p) = Some (JStr (right p))))"
      by blast
  qed
  from ea content dkeys dkey skeys fib spell hang match show ?thesis by blast
qed

lemma cat_exercise_answer:
  "exercise_answer HANGMAN cat_exercise =
     Inr (JObj [(str_of ''answer'', JStr (str_of ''cat''))])"
proof -
  have "is_Hangman (payload cat_exercise)" by (simp add: cat_exercise_def)
  from exercise_answer_hangman [OF this] show ?thesis by (simp add: cat_exercise_def)
qed

text \<open>
  C4. The document does not map exercise ids directly to answers: for one hangman set
  its only key is the key of the set, the exercise id is found one level below, and the
  answer stored there is the word to guess (\<open>cat\<close>), wrapped in an object, not the
  target-language word of the hint (\<open>Katze\<close>).
\<close>

theorem C4_counterexample:
  "export_answers example_exporter empty_filesystem [(str_of ''easy_hangman'', hangman_set)] =
     Inr ([str_of ''out'', str_of ''answers.json''],
          (ensure_directories example_exporter empty_filesystem)
            \<lparr>files := [[str_of ''out'', str_of ''answers.json''] \<mapsto>
                JObj [(str_of ''easy_hangman'',
                       JObj [(str_of ''hang_00000000'',
                              JObj [(str_of ''answer'', JStr (str_of ''cat''))])])]]\<rparr>) \<and>
   ex_id cat_exercise = str_of ''hang_00000000'' \<and>
   map_of [(str_of ''easy_hangman'',
            JObj [(str_of ''hang_00000000'', JObj [(str_of ''answer'', JStr (str_of ''cat''))])])]
     (ex_id cat_exercise) = None \<and>
   word (payload cat_exercise) = str_of ''cat'' \<and>
   hangman_hint (payload cat_exercise) = str_of ''Katze''"
proof -
  have i: "ex_id cat_exercise = str_of ''hang_00000000''" by (simp add: cat_exercise_def)
  have o: "output_dir example_exporter = [str_of ''out'']" by (simp add: example_exporter_def)
  have f: "files (ensure_directories example_exporter empty_filesystem) = Map.empty"
    by (simp add: ensure_directories_dirs empty_filesystem_def)
  have "export_answers example_exporter empty_filesystem [(str_of ''easy_hangman'', hangman_set)] =
     Inr ([str_of ''out'', str_of ''answers.json''],
          (ensure_directories example_exporter empty_filesystem)
            \<lparr>files := [[str_of ''out'', str_of ''answers.json''] \<mapsto>
                JObj [(str_of ''easy_hangman'',
                       JObj [(str_of ''hang_00000000'',
                              JObj [(str_of ''answer'', JStr (str_of ''cat''))])])]]\<rparr>)"
    by (simp add: export_answers_def Let_def hangman_set_def cat_exercise_answer i f o)
  then show ?thesis by (simp add: cat_exercise_def)
qed

theorem C4_witness:
  "distinct (map fst [(str_of ''easy_hangman'', hangman_set)]) \<and>
   distinct (map ex_id (exercises hangman_set)) \<and>
   cat_exercise \<in> set (exercises hangman_set) \<and>
   (\<exists>fs' doc set_answers.
      export_answers example_exporter empty_filesystem [(str_of ''easy_hangman'', hangman_set)] =
        Inr (output_dir example_exporter @ [str_of ''answers.json''], fs') \<and>
      files fs' (output_dir example_exporter @ [str_of ''answers.json'']) = Some (JObj doc) \<and>
      map_of doc (str_of ''easy_hangman'') = Some (JObj set_answers) \<and>
      map_of set_answers (ex_id cat_exercise) =
        Some (JObj [(str_of ''answer'', JStr (word (payload cat_exercise)))]))"
proof -
  have k: "distinct (map fst [(str_of ''easy_hangman'', hangman_set)])" by simp
  have m: "(str_of ''easy_hangman'', hangman_set) \<in> set [(str_of ''easy_hangman'', hangman_set)]"
    by simp
  have d: "distinct (map ex_id (exercises hangman_set))" by (simp add: hangman_set_def)
  have e: "cat_exercise \<in> set (exercises hangman_set)" by (simp add: hangman_set_def)
  have h: "exercise_type hangman_set = HANGMAN \<and> is_Hangman (payload cat_exercise)"
    by (simp add: hangman_set_def cat_exercise_def)
  from C4_answers_document [OF k m d e, of example_exporter empty_filesystem] h
  have "\<exists>fs' doc set_answers.
      export_answers example_exporter empty_filesystem [(str_of ''easy_hangman'', hangman_set)] =
        Inr (output_dir example_exporter @ [str_of ''answers.json''], fs') \<and>
      files fs' (output_dir example_exporter @ [str_of ''answers.json'']) = Some (JObj doc) \<and>
      map_of doc (str_of ''easy_hangman'') = Some (JObj set_answers) \<and>
      map_of set_answers (ex_id cat_exercise) =
        Some (JObj [(str_of ''answer'', JStr (word (payload cat_exercise)))])"
    by blast
  with k d e show ?thesis by blast
qed

section \<open>Items that share an id\<close>




end
